theory Spec2Isabelle
  imports Main "HOL-Library.Word"
begin

section \<open>The static HTTP server of examples/static-server/main.c\<close>

text \<open>
  The server is a set of callbacks that libuv's event loop and the streaming HTTP parser
  invoke. The embedding keeps the callbacks as functions on an explicit program state and
  records every call the program makes into libuv, the parser, the allocator and the log
  as an entry of a trace. What the two libraries do is an input: the events the loop
  delivers, the values its functions return, and the callbacks the parser invokes on a
  chunk. Status codes and byte counts are only compared by the program and are integers
  here; the request id is a C \<open>int\<close>, a 32-bit word whose increment wraps around.
\<close>

subsection \<open>Addresses and the layout of \<open>client_t\<close>\<close>

type_synonym addr = nat

text \<open>A C object type, as far as layout needs it: \<open>sizeof\<close> and the alignment.\<close>

record c_type =
  c_size :: nat
  c_align :: nat

text \<open>The next multiple of the alignment at or after a position.\<close>

definition align_up :: "nat \<Rightarrow> nat \<Rightarrow> nat" where
  "align_up n a = (if a = 0 then n else ((n + a - 1) div a) * a)"

text \<open>
  The offsets of the members of a struct, in declaration order: each member is placed at
  the first position after the previous member that its alignment allows.
\<close>

fun member_offsets :: "nat \<Rightarrow> c_type list \<Rightarrow> nat list" where
  "member_offsets pos [] = []"
| "member_offsets pos (t # ts) =
     (let off = align_up pos (c_align t) in off # member_offsets (off + c_size t) ts)"

text \<open>
  The three library types embedded in \<open>client_t\<close> are declared in uv.h and
  http_parser.h; their sizes and alignments are parameters of the model.
\<close>

record layout =
  uv_tcp_t :: c_type
  http_parser_t :: c_type
  uv_write_t :: c_type

definition int_t :: c_type where
  "int_t = \<lparr>c_size = 4, c_align = 4\<rparr>"

text \<open>
  \<^verbatim>\<open>typedef struct { uv_tcp_t handle; http_parser parser; uv_write_t write_req;
  int request_id; } client_t;\<close>
\<close>

definition client_t_members :: "layout \<Rightarrow> c_type list" where
  "client_t_members L = [uv_tcp_t L, http_parser_t L, uv_write_t L, int_t]"

definition offsetof_handle :: "layout \<Rightarrow> nat" where
  "offsetof_handle L = member_offsets 0 (client_t_members L) ! 0"

definition offsetof_parser :: "layout \<Rightarrow> nat" where
  "offsetof_parser L = member_offsets 0 (client_t_members L) ! 1"

definition offsetof_write_req :: "layout \<Rightarrow> nat" where
  "offsetof_write_req L = member_offsets 0 (client_t_members L) ! 2"

definition offsetof_request_id :: "layout \<Rightarrow> nat" where
  "offsetof_request_id L = member_offsets 0 (client_t_members L) ! 3"

text \<open>\<open>&client->handle\<close>, \<open>&client->parser\<close> and \<open>&client->write_req\<close>.\<close>

definition handle_addr :: "layout \<Rightarrow> addr \<Rightarrow> addr" where
  "handle_addr L client = client + offsetof_handle L"

definition parser_addr :: "layout \<Rightarrow> addr \<Rightarrow> addr" where
  "parser_addr L client = client + offsetof_parser L"

definition write_req_addr :: "layout \<Rightarrow> addr \<Rightarrow> addr" where
  "write_req_addr L client = client + offsetof_write_req L"

subsection \<open>Program state\<close>

text \<open>
  The fields of a \<open>client_t\<close> that the program itself reads or writes: the \<open>data\<close>
  pointers of the embedded handle and parser, and the request id. Everything else in the
  embedded objects belongs to the libraries. A \<open>data\<close> pointer is \<open>None\<close> as long as
  the freshly allocated object has not been assigned one.
\<close>

record client_t =
  handle_data :: "addr option"
  parser_data :: "addr option"
  request_id :: "32 word"

text \<open>
  A \<open>uv_buf_t\<close>: \<open>base\<close> is \<open>None\<close> for a null pointer and otherwise the bytes
  stored from the pointer on; \<open>len\<close> is the length field.
\<close>

record uv_buf_t =
  buf_base :: "string option"
  buf_len :: nat

datatype close_cb = NULL_cb | On_res_end

text \<open>
  The arguments of a log line: a number, a string, the text at a buffer's base pointer,
  and the name and the message that \<open>uv_err_name\<close> and \<open>uv_strerror\<close> give for a code.
\<close>

datatype log_arg =
    LInt int
  | LStr string
  | LBuf "string option"
  | LErr_name int
  | LStrerror int

text \<open>The calls that leave the program, in the order they are made.\<close>

datatype action =
    Uv_ip4_addr string int
  | Uv_tcp_init addr
  | Uv_tcp_bind addr
  | Uv_listen addr int
  | Uv_run
  | Http_parser_init addr
  | Uv_accept addr addr
  | Uv_read_start addr
  | Uv_close addr close_cb
  | Uv_write addr addr string
  | Free_buf
  | Log string "log_arg list"

text \<open>
  The process runs, has left through \<open>exit\<close> or the return of \<open>main\<close>, has failed
  the assertion of \<open>on_connect\<close>, or has read through a pointer that does not
  point to the object the code expects.
\<close>

datatype proc_status = Running | Exited int | Assert_failed | Invalid_access

record world =
  request_id_counter :: "32 word"
  default_response :: uv_buf_t
  heap :: "addr \<Rightarrow> client_t option"
  trace :: "action list"
  status :: proc_status

definition emit :: "action \<Rightarrow> world \<Rightarrow> world" where
  "emit a s = s\<lparr>trace := trace s @ [a]\<rparr>"

definition exit_proc :: "int \<Rightarrow> world \<Rightarrow> world" where
  "exit_proc n s = s\<lparr>status := Exited n\<rparr>"

definition invalid_access :: "world \<Rightarrow> world" where
  "invalid_access s = s\<lparr>status := Invalid_access\<rparr>"

text \<open>
  \<^verbatim>\<open>#define CHECK(r, msg) if (r) { log_err("%s: [%s(%d): %s]\n", msg, uv_err_name((r)),
  r, uv_strerror((r))); exit(1); }\<close> and \<^verbatim>\<open>#define UVERR(r, msg) log_err(...);\<close> with
  the same log line. The callers test \<open>r\<close>; \<open>CHECK_fails\<close> is the body of the \<open>if\<close>.
\<close>

definition CHECK_fails :: "int \<Rightarrow> string \<Rightarrow> world \<Rightarrow> world" where
  "CHECK_fails r msg s =
     exit_proc 1
       (emit (Log ''%s: [%s(%d): %s]\<newline>'' [LStr msg, LErr_name r, LInt r, LStrerror r]) s)"

definition UVERR :: "int \<Rightarrow> string \<Rightarrow> world \<Rightarrow> world" where
  "UVERR r msg s =
     emit (Log ''%s: [%s(%d): %s]\<newline>'' [LStr msg, LErr_name r, LInt r, LStrerror r]) s"

text \<open>Reading \<open>h->data\<close> of a handle, \<open>p->data\<close> of a parser, \<open>c->request_id\<close>.\<close>

definition read_handle_data :: "layout \<Rightarrow> world \<Rightarrow> addr \<Rightarrow> addr option" where
  "read_handle_data L s h =
     (if h < offsetof_handle L then None
      else (case heap s (h - offsetof_handle L) of None \<Rightarrow> None | Some c \<Rightarrow> handle_data c))"

definition read_parser_data :: "layout \<Rightarrow> world \<Rightarrow> addr \<Rightarrow> addr option" where
  "read_parser_data L s p =
     (if p < offsetof_parser L then None
      else (case heap s (p - offsetof_parser L) of None \<Rightarrow> None | Some c \<Rightarrow> parser_data c))"

definition read_request_id :: "world \<Rightarrow> addr \<Rightarrow> 32 word option" where
  "read_request_id s c = map_option request_id (heap s c)"

subsection \<open>The fixed response\<close>

definition CR :: char where "CR = CHR 0x0D"
definition LF :: char where "LF = CHR 0x0A"
definition NUL :: char where "NUL = CHR 0x00"

definition DEFAULT_RESPONSE :: string where
  "DEFAULT_RESPONSE =
     ''HTTP/1.1 200 OK'' @ [CR, LF] @
     ''Content-Type: text/plain'' @ [CR, LF] @
     ''Content-Length: 12'' @ [CR, LF] @
     [CR, LF] @
     ''hello world'' @ [LF]"

text \<open>A string literal in memory ends with a zero byte; \<open>strlen\<close> counts up to it.\<close>

definition c_literal :: "string \<Rightarrow> string" where
  "c_literal str = str @ [NUL]"

definition strlen :: "string \<Rightarrow> nat" where
  "strlen mem = length (takeWhile (\<lambda>c. c \<noteq> NUL) mem)"

text \<open>The bytes a write of one buffer sends: \<open>len\<close> bytes from \<open>base\<close>.\<close>

definition buf_bytes :: "uv_buf_t \<Rightarrow> string" where
  "buf_bytes b = (case buf_base b of None \<Rightarrow> [] | Some mem \<Rightarrow> take (buf_len b) mem)"

text \<open>
  \<^verbatim>\<open>default_response.base = DEFAULT_RESPONSE;
  default_response.len = strlen(default_response.base);\<close>
\<close>

definition init_default_response :: uv_buf_t where
  "init_default_response =
     \<lparr>buf_base = Some (c_literal DEFAULT_RESPONSE),
      buf_len = strlen (c_literal DEFAULT_RESPONSE)\<rparr>"

subsection \<open>Calls into libuv\<close>

text \<open>
  \<open>uv_close(handle, cb)\<close> and \<open>uv_write(req, stream, buf, 1, on_res_write)\<close>: the
  program ignores what they return, so a call is its trace entry.
\<close>

definition uv_close :: "addr \<Rightarrow> close_cb \<Rightarrow> world \<Rightarrow> world" where
  "uv_close h cb s = emit (Uv_close h cb) s"

definition uv_write :: "addr \<Rightarrow> addr \<Rightarrow> uv_buf_t \<Rightarrow> world \<Rightarrow> world" where
  "uv_write req stream buf s = emit (Uv_write req stream (buf_bytes buf)) s"

text \<open>\<^verbatim>\<open>buf->base = malloc(size); buf->len = size;\<close> with the result of \<open>malloc\<close>.\<close>

definition alloc_cb :: "addr \<Rightarrow> nat \<Rightarrow> string option \<Rightarrow> uv_buf_t" where
  "alloc_cb h sz mem = \<lparr>buf_base = mem, buf_len = sz\<rparr>"

subsection \<open>Parser callbacks\<close>

text \<open>
  \<open>strslice(s, len)\<close>: \<open>strncpy\<close> copies up to \<open>len\<close> bytes, stops at a zero byte
  and fills the rest with zeros; the slice gets a final zero byte. \<open>c_str\<close> is the text
  that \<open>%s\<close> prints from it.
\<close>

definition c_str :: "string \<Rightarrow> string" where
  "c_str mem = takeWhile (\<lambda>c. c \<noteq> NUL) mem"

definition strslice :: "string \<Rightarrow> nat \<Rightarrow> string" where
  "strslice str n =
     (let copied = c_str (take n str)
      in copied @ replicate (n - length copied) NUL @ [NUL])"

text \<open>
  \<^verbatim>\<open>client_t *client = (client_t*) parser->data;\<close> followed by the read of
  \<open>client->request_id\<close> for the log line, and the same through \<open>handle->data\<close>.
\<close>

definition parser_client :: "layout \<Rightarrow> world \<Rightarrow> addr \<Rightarrow> (addr \<times> 32 word) option" where
  "parser_client L s parser =
     (case read_parser_data L s parser of
        None \<Rightarrow> None
      | Some client \<Rightarrow>
          (case read_request_id s client of
             None \<Rightarrow> None
           | Some rid \<Rightarrow> Some (client, rid)))"

definition handle_client :: "layout \<Rightarrow> world \<Rightarrow> addr \<Rightarrow> (addr \<times> 32 word) option" where
  "handle_client L s h =
     (case read_handle_data L s h of
        None \<Rightarrow> None
      | Some client \<Rightarrow>
          (case read_request_id s client of
             None \<Rightarrow> None
           | Some rid \<Rightarrow> Some (client, rid)))"

definition on_message_begin :: "layout \<Rightarrow> addr \<Rightarrow> world \<Rightarrow> int \<times> world" where
  "on_message_begin L parser s =
     (case parser_client L s parser of
        None \<Rightarrow> (0, invalid_access s)
      | Some (client, rid) \<Rightarrow>
          (0, emit (Log ''[ %3d ] message begin'' [LInt (sint rid)]) s))"

definition on_url :: "layout \<Rightarrow> addr \<Rightarrow> string \<Rightarrow> nat \<Rightarrow> world \<Rightarrow> int \<times> world" where
  "on_url L parser hdr n s =
     (case parser_client L s parser of
        None \<Rightarrow> (0, invalid_access s)
      | Some (client, rid) \<Rightarrow>
          (let url = strslice hdr n
           in (0, emit (Log ''[ %3d ] h_url: %s'' [LInt (sint rid), LStr (c_str url)]) s)))"

definition on_status :: "layout \<Rightarrow> addr \<Rightarrow> string \<Rightarrow> nat \<Rightarrow> world \<Rightarrow> int \<times> world" where
  "on_status L parser hdr n s =
     (case parser_client L s parser of
        None \<Rightarrow> (0, invalid_access s)
      | Some (client, rid) \<Rightarrow>
          (let st = strslice hdr n
           in (0, emit (Log ''[ %3d ] h_status: %s'' [LInt (sint rid), LStr (c_str st)]) s)))"

definition on_header_field :: "layout \<Rightarrow> addr \<Rightarrow> string \<Rightarrow> nat \<Rightarrow> world \<Rightarrow> int \<times> world" where
  "on_header_field L parser hdr n s =
     (case parser_client L s parser of
        None \<Rightarrow> (0, invalid_access s)
      | Some (client, rid) \<Rightarrow>
          (let field = strslice hdr n
           in (0, emit (Log ''[ %3d ] h_field: %s'' [LInt (sint rid), LStr (c_str field)]) s)))"

definition on_header_value :: "layout \<Rightarrow> addr \<Rightarrow> string \<Rightarrow> nat \<Rightarrow> world \<Rightarrow> int \<times> world" where
  "on_header_value L parser hdr n s =
     (case parser_client L s parser of
        None \<Rightarrow> (0, invalid_access s)
      | Some (client, rid) \<Rightarrow>
          (let v = strslice hdr n
           in (0, emit (Log ''[ %3d ] h_value: %s'' [LInt (sint rid), LStr (c_str v)]) s)))"

text \<open>\<open>return 1\<close>: "signal that there won't be a body by returning 1".\<close>

definition on_headers_complete :: "layout \<Rightarrow> addr \<Rightarrow> world \<Rightarrow> int \<times> world" where
  "on_headers_complete L parser s =
     (case parser_client L s parser of
        None \<Rightarrow> (0, invalid_access s)
      | Some (client, rid) \<Rightarrow>
          (1, emit (Log ''[ %3d ] headers complete'' [LInt (sint rid)]) s))"

definition on_message_complete :: "layout \<Rightarrow> addr \<Rightarrow> world \<Rightarrow> int \<times> world" where
  "on_message_complete L parser s =
     (case parser_client L s parser of
        None \<Rightarrow> (0, invalid_access s)
      | Some (client, rid) \<Rightarrow>
          (let s1 = emit (Log ''[ %3d ] message complete'' [LInt (sint rid)]) s
           in (0, uv_write (write_req_addr L client) (handle_addr L client)
                    (default_response s1) s1)))"

subsection \<open>The parser as a collaborator\<close>

text \<open>
  One call of \<open>http_parser_execute\<close> invokes callbacks of the settings table, may react
  to what each one returns, and returns the number of bytes it consumed. The grammar is
  the library's; a call is given by what it does: return, or invoke a callback and go on
  according to the callback's result. The data callbacks carry the bytes at their
  pointer argument and the length argument.
\<close>

datatype parser_cb =
    Message_begin
  | Url string nat
  | Status string nat
  | Header_field string nat
  | Header_value string nat
  | Headers_complete
  | Message_complete

datatype parser_run = Return nat | Invoke parser_cb "int \<Rightarrow> parser_run"

text \<open>The table that \<open>main\<close> fills in: one function per callback.\<close>

definition parser_settings :: "layout \<Rightarrow> parser_cb \<Rightarrow> addr \<Rightarrow> world \<Rightarrow> int \<times> world" where
  "parser_settings L cb parser s =
     (case cb of
        Message_begin \<Rightarrow> on_message_begin L parser s
      | Url hdr n \<Rightarrow> on_url L parser hdr n s
      | Status hdr n \<Rightarrow> on_status L parser hdr n s
      | Header_field hdr n \<Rightarrow> on_header_field L parser hdr n s
      | Header_value hdr n \<Rightarrow> on_header_value L parser hdr n s
      | Headers_complete \<Rightarrow> on_headers_complete L parser s
      | Message_complete \<Rightarrow> on_message_complete L parser s)"

primrec http_parser_execute :: "layout \<Rightarrow> addr \<Rightarrow> parser_run \<Rightarrow> world \<Rightarrow> nat \<times> world" where
  "http_parser_execute L parser (Return n) = (\<lambda>s. (n, s))"
| "http_parser_execute L parser (Invoke cb k) = (\<lambda>s.
     (let (r, s') = parser_settings L cb parser s
      in if status s' \<noteq> Running then (0, s')
         else http_parser_execute L parser (k r) s'))"

subsection \<open>Loop callbacks\<close>

text \<open>
  \<open>on_connect(server, status)\<close>. The address that \<open>malloc\<close> returns and the result
  \<open>r\<close> of \<open>uv_accept\<close> are inputs. The allocation is used unchecked, as in the source.
\<close>

definition on_connect :: "layout \<Rightarrow> addr \<Rightarrow> int \<Rightarrow> addr \<Rightarrow> int \<Rightarrow> world \<Rightarrow> world" where
  "on_connect L server st client r s =
     (if st \<noteq> 0 then CHECK_fails st ''connecting'' s
      else
        let s1 = emit (Log ''connecting client'' []) s;
            s2 = s1\<lparr>heap := (heap s1)(client \<mapsto>
                      \<lparr>handle_data = None, parser_data = None,
                       request_id = request_id_counter s1\<rparr>),
                    request_id_counter := request_id_counter s1 + 1\<rparr>
        in if client \<noteq> handle_addr L client then s2\<lparr>status := Assert_failed\<rparr>
           else
             let s3 = emit (Uv_tcp_init (handle_addr L client)) s2;
                 s4 = emit (Http_parser_init (parser_addr L client)) s3;
                 s5 = s4\<lparr>heap := (heap s4)(client :=
                           map_option (\<lambda>c. c\<lparr>parser_data := Some client\<rparr>) (heap s4 client))\<rparr>;
                 s6 = s5\<lparr>heap := (heap s5)(client :=
                           map_option (\<lambda>c. c\<lparr>handle_data := Some client\<rparr>) (heap s5 client))\<rparr>;
                 s7 = emit (Uv_accept server (handle_addr L client)) s6
             in if r \<noteq> 0
                then uv_close client NULL_cb
                       (emit (Log ''error accepting connection %d'' [LInt r]) s7)
                else emit (Uv_read_start client) s7)"

text \<open>
  \<open>on_client_read(tcp, nread, buf)\<close>. \<open>UV_EOF\<close> is a constant of uv.h and a parameter
  here (\<open>eof\<close>); \<open>run\<close> is what the parser does on this chunk. \<open>(int) nread\<close> keeps
  the low 32 bits.
\<close>

definition on_client_read ::
  "layout \<Rightarrow> int \<Rightarrow> addr \<Rightarrow> int \<Rightarrow> uv_buf_t \<Rightarrow> parser_run \<Rightarrow> world \<Rightarrow> world" where
  "on_client_read L eof tcp nread buf run s =
     (let s1 =
        (if nread = eof then
           emit (Log ''closed client tcp connection due to unexpected EOF'' [])
             (uv_close tcp NULL_cb s)
         else if nread > 0 then
           (case handle_client L s tcp of
              None \<Rightarrow> invalid_access s
            | Some (client, rid) \<Rightarrow>
                (let s2 = emit (Log ''[ %3d ] request (len %ld)\<newline>%s''
                                  [LInt (sint rid), LInt nread, LBuf (buf_base buf)]) s;
                     (parsed, s3) = http_parser_execute L (parser_addr L client) run s2
                 in if status s3 \<noteq> Running then s3
                    else if int parsed < nread
                    then uv_close (handle_addr L client) On_res_end
                           (emit (Log ''parsing http request'' []) s3)
                    else s3))
         else UVERR (sint (word_of_int nread :: 32 word)) ''reading client request'' s)
      in if status s1 \<noteq> Running then s1
         else (case buf_base buf of None \<Rightarrow> s1 | Some mem \<Rightarrow> emit Free_buf s1))"

text \<open>
  \<open>on_res_write(req, status)\<close>. The field \<open>req->handle\<close> is written by libuv; its value
  comes with the event (\<open>req_handle\<close>).
\<close>

definition on_res_write :: "addr \<Rightarrow> addr \<Rightarrow> int \<Rightarrow> world \<Rightarrow> world" where
  "on_res_write req req_handle st s =
     (if st \<noteq> 0 then CHECK_fails st ''on res write'' s
      else uv_close req_handle On_res_end s)"

definition on_res_end :: "layout \<Rightarrow> addr \<Rightarrow> world \<Rightarrow> world" where
  "on_res_end L h s =
     (case handle_client L s h of
        None \<Rightarrow> invalid_access s
      | Some (client, rid) \<Rightarrow>
          emit (Log ''[ %3d ] connection closed'' [LInt (sint rid)]) s)"

subsection \<open>The event loop and \<open>main\<close>\<close>

text \<open>
  What the loop delivers: a connection on the listening socket (with the status, the
  address \<open>malloc\<close> will return and the result \<open>uv_accept\<close> will give), a read on a
  stream, the completion of a write, the completion of a close.
\<close>

datatype event =
    Connection addr int addr int
  | Client_read addr int uv_buf_t parser_run
  | Res_write addr addr int
  | Res_end addr

definition dispatch :: "layout \<Rightarrow> int \<Rightarrow> event \<Rightarrow> world \<Rightarrow> world" where
  "dispatch L eof ev s =
     (case ev of
        Connection server st client r \<Rightarrow> on_connect L server st client r s
      | Client_read tcp nread buf run \<Rightarrow> on_client_read L eof tcp nread buf run s
      | Res_write req req_handle st \<Rightarrow> on_res_write req req_handle st s
      | Res_end h \<Rightarrow> on_res_end L h s)"

text \<open>\<open>uv_run\<close> delivers the events in order for as long as the process runs.\<close>

fun uv_run :: "layout \<Rightarrow> int \<Rightarrow> event list \<Rightarrow> world \<Rightarrow> world" where
  "uv_run L eof [] s = s"
| "uv_run L eof (ev # evs) s =
     (if status s \<noteq> Running then s else uv_run L eof evs (dispatch L eof ev s))"

definition PORT :: int where "PORT = 3000"
definition BACKLOG :: int where "BACKLOG = 128"

text \<open>The statics before \<open>main\<close>: zero-initialised.\<close>

definition initial_world :: world where
  "initial_world =
     \<lparr>request_id_counter = 0,
      default_response = \<lparr>buf_base = None, buf_len = 0\<rparr>,
      heap = (\<lambda>a. None),
      trace = [],
      status = Running\<rparr>"

text \<open>
  \<open>main\<close> up to the call of \<open>uv_run\<close>. \<open>server\<close> is the address of the static
  \<open>server\<close> handle; \<open>r_addr\<close>, \<open>r_init\<close>, \<open>r_bind\<close> and \<open>r_listen\<close> are what
  \<open>uv_ip4_addr\<close>, \<open>uv_tcp_init\<close>, \<open>uv_tcp_bind\<close> and \<open>uv_listen\<close> return. The first
  three are followed by \<open>CHECK\<close>; the result of \<open>uv_listen\<close> is assigned and not read.
\<close>

definition main_startup :: "addr \<Rightarrow> int \<Rightarrow> int \<Rightarrow> int \<Rightarrow> int \<Rightarrow> world" where
  "main_startup server r_addr r_init r_bind r_listen =
     (let s1 = initial_world\<lparr>default_response := init_default_response\<rparr>;
          s2 = s1\<lparr>request_id_counter := 0\<rparr>;
          s3 = emit (Uv_ip4_addr ''0.0.0.0'' PORT) s2
      in if r_addr \<noteq> 0 then CHECK_fails r_addr ''get bind addr'' s3
         else
           let s4 = emit (Uv_tcp_init server) s3
           in if r_init \<noteq> 0 then CHECK_fails r_init ''init server'' s4
              else
                let s5 = emit (Uv_tcp_bind server) s4
                in if r_bind \<noteq> 0 then CHECK_fails r_bind ''bind'' s5
                   else
                     let s6 = emit (Uv_listen server BACKLOG) s5
                     in emit (Log ''listening on http://localhost:%d'' [LInt PORT]) s6)"

text \<open>\<open>main\<close>: the startup, the loop over the events it is given, \<open>return 0\<close>.\<close>

definition main ::
  "layout \<Rightarrow> int \<Rightarrow> addr \<Rightarrow> int \<Rightarrow> int \<Rightarrow> int \<Rightarrow> int \<Rightarrow> event list \<Rightarrow> world" where
  "main L eof server r_addr r_init r_bind r_listen evs =
     (let s = main_startup server r_addr r_init r_bind r_listen
      in if status s \<noteq> Running then s
         else
           let s' = uv_run L eof evs (emit Uv_run s)
           in if status s' \<noteq> Running then s' else exit_proc 0 s')"

subsection \<open>Observing a run\<close>

text \<open>
  The callbacks of this program answer the parser with 1 from headers-complete and with 0
  from every other callback. \<open>fired\<close> is the sequence of callbacks a parser run invokes
  under these answers and \<open>consumed\<close> the byte count it returns; that
  \<open>http_parser_execute\<close> follows exactly this path is proved below.
\<close>

primrec fired :: "parser_run \<Rightarrow> parser_cb list" where
  "fired (Return n) = []"
| "fired (Invoke cb k) = cb # fired (k (if cb = Headers_complete then 1 else 0))"

primrec consumed :: "parser_run \<Rightarrow> nat" where
  "consumed (Return n) = n"
| "consumed (Invoke cb k) = consumed (k (if cb = Headers_complete then 1 else 0))"

text \<open>The writes and the closes issued on a given stream, and all socket operations.\<close>

fun is_write_on :: "addr \<Rightarrow> action \<Rightarrow> bool" where
  "is_write_on h (Uv_write req stream bytes) = (stream = h)"
| "is_write_on h a = False"

fun is_close_on :: "addr \<Rightarrow> action \<Rightarrow> bool" where
  "is_close_on h (Uv_close x cb) = (x = h)"
| "is_close_on h a = False"

fun is_write :: "action \<Rightarrow> bool" where
  "is_write (Uv_write req stream bytes) = True"
| "is_write a = False"

fun is_socket_op :: "action \<Rightarrow> bool" where
  "is_socket_op (Uv_write req stream bytes) = True"
| "is_socket_op (Uv_close x cb) = True"
| "is_socket_op a = False"

definition writes_on :: "addr \<Rightarrow> action list \<Rightarrow> action list" where
  "writes_on h tr = filter (is_write_on h) tr"

definition closes_on :: "addr \<Rightarrow> action list \<Rightarrow> action list" where
  "closes_on h tr = filter (is_close_on h) tr"

definition socket_ops :: "action list \<Rightarrow> action list" where
  "socket_ops tr = filter is_socket_op tr"

text \<open>What a callback added to the trace.\<close>

definition issued_by :: "world \<Rightarrow> world \<Rightarrow> action list" where
  "issued_by s s' = drop (length (trace s)) (trace s')"

text \<open>
  The state of the server once \<open>main\<close> has passed its three checks and the loop has
  delivered the events \<open>evs\<close>.
\<close>

definition serving :: "layout \<Rightarrow> int \<Rightarrow> addr \<Rightarrow> int \<Rightarrow> event list \<Rightarrow> world" where
  "serving L eof server r_listen evs =
     uv_run L eof evs (emit Uv_run (main_startup server 0 0 0 r_listen))"

text \<open>
  Every client object on the heap carries the two back pointers that \<open>on_connect\<close>
  stores: \<open>handle.data\<close> and \<open>parser.data\<close> point to the object itself.
\<close>

definition wf_heap :: "world \<Rightarrow> bool" where
  "wf_heap s = (\<forall>a c. heap s a = Some c \<longrightarrow> handle_data c = Some a \<and> parser_data c = Some a)"

text \<open>\<^verbatim>\<open>if (buf->base) free(buf->base);\<close> as trace entries.\<close>

definition freed :: "uv_buf_t \<Rightarrow> action list" where
  "freed buf = (case buf_base buf of None \<Rightarrow> [] | Some mem \<Rightarrow> [Free_buf])"

text \<open>
  The socket operations that one event makes the program issue in a state it can reach;
  \<open>dispatch_step\<close> below proves that \<open>dispatch\<close> issues exactly these.
\<close>

fun ev_ops :: "layout \<Rightarrow> int \<Rightarrow> world \<Rightarrow> event \<Rightarrow> action list" where
  "ev_ops L eof s (Connection server st client r) =
     (if st = 0 \<and> r \<noteq> 0 then [Uv_close client NULL_cb] else [])"
| "ev_ops L eof s (Client_read tcp nread buf run) =
     (if nread = eof then [Uv_close tcp NULL_cb]
      else if 0 < nread \<and> heap s tcp \<noteq> None
      then replicate (count_list (fired run) Message_complete)
             (Uv_write (write_req_addr L tcp) tcp DEFAULT_RESPONSE)
           @ (if int (consumed run) < nread then [Uv_close tcp On_res_end] else [])
      else [])"
| "ev_ops L eof s (Res_write req req_handle st) =
     (if st = 0 then [Uv_close req_handle On_res_end] else [])"
| "ev_ops L eof s (Res_end h) = []"

text \<open>
  The message-complete callbacks that an event delivers to the parser of stream \<open>h\<close>,
  and whether an event is one of those that make the program close \<open>h\<close>: a failed
  \<open>uv_accept\<close>, an end-of-stream read, a chunk the parser consumed in part, a write
  completed with status 0.
\<close>

fun completions :: "int \<Rightarrow> addr \<Rightarrow> event \<Rightarrow> nat" where
  "completions eof h (Client_read tcp nread buf run) =
     (if tcp = h \<and> nread \<noteq> eof \<and> 0 < nread
      then count_list (fired run) Message_complete else 0)"
| "completions eof h ev = 0"

fun closings :: "int \<Rightarrow> addr \<Rightarrow> event \<Rightarrow> nat" where
  "closings eof h (Connection server st client r) =
     (if client = h \<and> st = 0 \<and> r \<noteq> 0 then 1 else 0)"
| "closings eof h (Client_read tcp nread buf run) =
     (if tcp = h \<and> (nread = eof \<or> (0 < nread \<and> int (consumed run) < nread)) then 1 else 0)"
| "closings eof h (Res_write req req_handle st) =
     (if req_handle = h \<and> st = 0 then 1 else 0)"
| "closings eof h (Res_end x) = 0"

text \<open>What holds of every state after a successful startup.\<close>

definition server_inv :: "world \<Rightarrow> bool" where
  "server_inv s = (wf_heap s \<and> default_response s = init_default_response)"

text \<open>A write, if the action is one, sends exactly the fixed response.\<close>

fun is_fixed_write :: "action \<Rightarrow> bool" where
  "is_fixed_write (Uv_write req stream bytes) = (bytes = DEFAULT_RESPONSE)"
| "is_fixed_write a = True"

text \<open>The events on which \<open>on_connect\<close> allocates a client and takes the next id.\<close>

fun allocates :: "event \<Rightarrow> bool" where
  "allocates (Connection server st client r) = (st = 0)"
| "allocates ev = False"

subsection \<open>Example inputs\<close>

text \<open>
  A layout with sizes of the order found on a 64-bit Linux, the request
  \<^verbatim>\<open>GET / HTTP/1.1\r\nHost: x\r\n\r\n\<close> of 27 bytes and what the parser does on it, and
  the buffer it arrives in.
\<close>

definition example_layout :: layout where
  "example_layout =
     \<lparr>uv_tcp_t = \<lparr>c_size = 248, c_align = 8\<rparr>,
      http_parser_t = \<lparr>c_size = 32, c_align = 8\<rparr>,
      uv_write_t = \<lparr>c_size = 192, c_align = 8\<rparr>\<rparr>"

definition get_request :: string where
  "get_request = ''GET / HTTP/1.1'' @ [CR, LF] @ ''Host: x'' @ [CR, LF] @ [CR, LF]"

definition get_run :: parser_run where
  "get_run =
     Invoke Message_begin (\<lambda>r.
     Invoke (Url (drop 4 get_request) 1) (\<lambda>r.
     Invoke (Header_field (drop 16 get_request) 4) (\<lambda>r.
     Invoke (Header_value (drop 22 get_request) 1) (\<lambda>r.
     Invoke Headers_complete (\<lambda>r.
       if r = 0 \<or> r = 1 then Invoke Message_complete (\<lambda>r. Return 27) else Return 26)))))"

definition example_buf :: uv_buf_t where
  "example_buf = alloc_cb 1000 65536 (Some get_request)"

text \<open>
  A complete request followed by bytes that are no request, 25 bytes in one chunk: the
  parser completes the first message, begins a second one and stops in its method.
\<close>

definition garbage_chunk :: string where
  "garbage_chunk = ''GET / HTTP/1.1'' @ [CR, LF] @ [CR, LF] @ ''GARBAGE''"

definition garbage_run :: parser_run where
  "garbage_run =
     Invoke Message_begin (\<lambda>r.
     Invoke (Url (drop 4 garbage_chunk) 1) (\<lambda>r.
     Invoke Headers_complete (\<lambda>r.
       if r = 0 \<or> r = 1
       then Invoke Message_complete (\<lambda>r. Invoke Message_begin (\<lambda>r. Return 19))
       else Return 17)))"

definition garbage_buf :: uv_buf_t where
  "garbage_buf = alloc_cb 1000 65536 (Some garbage_chunk)"

text \<open>Two complete requests in one chunk of 36 bytes.\<close>

definition pipelined_chunk :: string where
  "pipelined_chunk =
     ''GET / HTTP/1.1'' @ [CR, LF] @ [CR, LF] @ ''GET / HTTP/1.1'' @ [CR, LF] @ [CR, LF]"

definition pipelined_run :: parser_run where
  "pipelined_run =
     Invoke Message_begin (\<lambda>r.
     Invoke (Url (drop 4 pipelined_chunk) 1) (\<lambda>r.
     Invoke Headers_complete (\<lambda>r.
     Invoke Message_complete (\<lambda>r.
     Invoke Message_begin (\<lambda>r.
     Invoke (Url (drop 22 pipelined_chunk) 1) (\<lambda>r.
     Invoke Headers_complete (\<lambda>r.
     Invoke Message_complete (\<lambda>r. Return 36))))))))"

definition pipelined_buf :: uv_buf_t where
  "pipelined_buf = alloc_cb 1000 65536 (Some pipelined_chunk)"

text \<open>
  The server after it accepted one connection, allocated at address 1000, and the same
  after a chunk with two requests.
\<close>

definition one_client :: world where
  "one_client = serving example_layout (- 4095) 500 0 [Connection 500 0 1000 0]"

definition pipelined_client :: world where
  "pipelined_client =
     serving example_layout (- 4095) 500 0
       [Connection 500 0 1000 0, Client_read 1000 36 pipelined_buf pipelined_run]"

text \<open>
  One connection that sends a request and ends its stream; the completion of the write
  is delivered after the end of stream.
\<close>

definition request_then_eof :: "event list" where
  "request_then_eof =
     [Connection 500 0 1000 0, Client_read 1000 27 example_buf get_run,
      Client_read 1000 (- 4095) example_buf (Return 0), Res_write 1280 1000 0]"

text \<open>
  2147483647 accepted connections, each in a block of its own, and the two
  connections accepted after them.
\<close>

definition nth_client :: "nat \<Rightarrow> addr" where
  "nth_client i = 4096 + 512 * i"

definition many_accepts :: "event list" where
  "many_accepts = map (\<lambda>i. Connection 500 0 (nth_client i) 0) [0..<2147483647]"

definition overflow_first :: world where
  "overflow_first =
     on_connect example_layout 500 0 (nth_client 2147483647) 0
       (serving example_layout (- 4095) 500 0 many_accepts)"

definition overflow_second :: world where
  "overflow_second =
     on_connect example_layout 500 0 (nth_client 2147483648) 0 overflow_first"

section \<open>Properties\<close>

subsection \<open>The response constant\<close>

lemma strlen_DEFAULT_RESPONSE: "strlen (c_literal DEFAULT_RESPONSE) = 77"
  by (simp add: strlen_def c_literal_def DEFAULT_RESPONSE_def CR_def LF_def NUL_def)

lemma buf_bytes_init_default_response: "buf_bytes init_default_response = DEFAULT_RESPONSE"
  by (simp add: buf_bytes_def init_default_response_def strlen_def c_literal_def
      DEFAULT_RESPONSE_def CR_def LF_def NUL_def)

lemma DEFAULT_RESPONSE_bytes:
  "DEFAULT_RESPONSE =
     ''HTTP/1.1 200 OK'' @ [CHR 0x0D, CHR 0x0A]
     @ ''Content-Type: text/plain'' @ [CHR 0x0D, CHR 0x0A]
     @ ''Content-Length: 12'' @ [CHR 0x0D, CHR 0x0A, CHR 0x0D, CHR 0x0A]
     @ ''hello world'' @ [CHR 0x0A]"
  by (simp add: DEFAULT_RESPONSE_def CR_def LF_def)

lemma length_DEFAULT_RESPONSE: "length DEFAULT_RESPONSE = 77"
  by (simp add: DEFAULT_RESPONSE_def)

lemma buf_len_init_default_response: "buf_len init_default_response = 77"
  by (simp add: init_default_response_def strlen_DEFAULT_RESPONSE)

lemma default_response_main_startup:
  "default_response (main_startup server r_addr r_init r_bind r_listen) = init_default_response"
  by (simp add: main_startup_def initial_world_def emit_def CHECK_fails_def exit_proc_def Let_def)

lemmas op_defs = emit_def exit_proc_def invalid_access_def CHECK_fails_def UVERR_def
  uv_close_def uv_write_def

lemmas cb_defs = on_message_begin_def on_url_def on_status_def on_header_field_def
  on_header_value_def on_headers_complete_def on_message_complete_def

subsection \<open>What the callbacks do\<close>

lemma offsetof_handle_0 [simp]: "offsetof_handle L = 0"
  by (simp add: offsetof_handle_def client_t_members_def align_up_def)

lemma handle_addr_eq [simp]: "handle_addr L client = client"
  by (simp add: handle_addr_def)

lemma wf_heap_trace [simp]: "wf_heap (s\<lparr>trace := t\<rparr>) = wf_heap s"
  by (simp add: wf_heap_def)

lemma wf_heap_status [simp]: "wf_heap (s\<lparr>status := t\<rparr>) = wf_heap s"
  by (simp add: wf_heap_def)

lemma parser_client_wf:
  "wf_heap s \<Longrightarrow> heap s c = Some cl \<Longrightarrow>
   parser_client L s (parser_addr L c) = Some (c, request_id cl)"
  by (simp add: parser_client_def read_parser_data_def read_request_id_def parser_addr_def
      wf_heap_def)

lemma handle_client_wf:
  "wf_heap s \<Longrightarrow>
   handle_client L s h = (case heap s h of None \<Rightarrow> None | Some cl \<Rightarrow> Some (h, request_id cl))"
  by (auto simp add: handle_client_def read_handle_data_def read_request_id_def wf_heap_def
      split: option.splits)

lemma socket_ops_append [simp]: "socket_ops (xs @ ys) = socket_ops xs @ socket_ops ys"
  by (simp add: socket_ops_def)

lemma socket_ops_Nil [simp]: "socket_ops [] = []"
  by (simp add: socket_ops_def)

lemma socket_ops_Cons [simp]:
  "socket_ops (a # xs) = (if is_socket_op a then a # socket_ops xs else socket_ops xs)"
  by (simp add: socket_ops_def)

text \<open>Each callback answers with its constant and only extends the trace.\<close>

lemma parser_settings_wf:
  assumes "wf_heap s" and "heap s c = Some cl"
  shows "\<exists>X. parser_settings L cb (parser_addr L c) s =
            (if cb = Headers_complete then 1 else 0, s\<lparr>trace := trace s @ X\<rparr>)
          \<and> socket_ops X =
              (if cb = Message_complete
               then [Uv_write (write_req_addr L c) c (buf_bytes (default_response s))]
               else [])"
  using parser_client_wf [OF assms, of L]
  apply (cases cb; simp add: parser_settings_def cb_defs op_defs Let_def)
  by ((rule exI, rule conjI, rule refl, simp)+)

lemma execute_wf:
  assumes "wf_heap s" and "heap s c = Some cl" and "status s = Running"
  shows "\<exists>X. http_parser_execute L (parser_addr L c) run s =
            (consumed run, s\<lparr>trace := trace s @ X\<rparr>)
          \<and> socket_ops X =
              replicate (count_list (fired run) Message_complete)
                (Uv_write (write_req_addr L c) c (buf_bytes (default_response s)))"
  using assms
proof (induction run arbitrary: s)
  case (Return n)
  have "s = s\<lparr>trace := trace s @ []\<rparr>" by simp
  then show ?case by (metis http_parser_execute.simps(1) consumed.simps(1) fired.simps(1)
    count_list.simps(1) replicate_0 socket_ops_Nil)
next
  case (Invoke cb k)
  let ?r = "if cb = Headers_complete then 1 else (0::int)"
  from parser_settings_wf [OF Invoke.prems(1,2), of L cb]
  obtain Y where Y: "parser_settings L cb (parser_addr L c) s = (?r, s\<lparr>trace := trace s @ Y\<rparr>)"
    and opsY: "socket_ops Y = (if cb = Message_complete
               then [Uv_write (write_req_addr L c) c (buf_bytes (default_response s))]
               else [])"
    by blast
  let ?s = "s\<lparr>trace := trace s @ Y\<rparr>"
  have "wf_heap ?s" "heap ?s c = Some cl" "status ?s = Running"
    using Invoke.prems by simp_all
  have "k ?r \<in> range k" by simp
  from Invoke.IH [OF this \<open>wf_heap ?s\<close> \<open>heap ?s c = Some cl\<close> \<open>status ?s = Running\<close>]
  obtain Z where Z: "http_parser_execute L (parser_addr L c) (k ?r) ?s =
            (consumed (k ?r), ?s\<lparr>trace := trace ?s @ Z\<rparr>)"
    and opsZ: "socket_ops Z =
              replicate (count_list (fired (k ?r)) Message_complete)
                (Uv_write (write_req_addr L c) c (buf_bytes (default_response ?s)))"
    by blast
  have "http_parser_execute L (parser_addr L c) (Invoke cb k) s =
          (consumed (Invoke cb k), s\<lparr>trace := trace s @ (Y @ Z)\<rparr>)"
    using Y Z Invoke.prems(3) by simp
  moreover have "socket_ops (Y @ Z) =
      replicate (count_list (fired (Invoke cb k)) Message_complete)
        (Uv_write (write_req_addr L c) c (buf_bytes (default_response s)))"
    using opsY opsZ by simp
  ultimately show ?case by blast
qed

lemma execute_wf_fixed:
  assumes "wf_heap s" and "heap s c = Some cl" and "status s = Running"
    and "default_response s = init_default_response"
  shows "\<exists>X. http_parser_execute L (parser_addr L c) run s =
            (consumed run, s\<lparr>trace := trace s @ X\<rparr>)
          \<and> socket_ops X =
              replicate (count_list (fired run) Message_complete)
                (Uv_write (write_req_addr L c) c DEFAULT_RESPONSE)"
  using execute_wf [OF assms(1-3), of L run] assms(4)
  by (simp add: buf_bytes_init_default_response)

lemma socket_ops_freed [simp]: "socket_ops (freed buf) = []"
  by (simp add: freed_def split: option.splits)

lemma on_client_read_eof:
  "status s = Running \<Longrightarrow>
   on_client_read L eof tcp eof buf run s =
     s\<lparr>trace := trace s @
         [Uv_close tcp NULL_cb, Log ''closed client tcp connection due to unexpected EOF'' []]
         @ freed buf\<rparr>"
  by (simp add: on_client_read_def op_defs freed_def split: option.splits)

lemma on_client_read_error:
  "status s = Running \<Longrightarrow> nread \<noteq> eof \<Longrightarrow> \<not> 0 < nread \<Longrightarrow>
   on_client_read L eof tcp nread buf run s =
     s\<lparr>trace := trace s @
         [Log ''%s: [%s(%d): %s]\<newline>''
            [LStr ''reading client request'',
             LErr_name (sint (word_of_int nread :: 32 word)),
             LInt (sint (word_of_int nread :: 32 word)),
             LStrerror (sint (word_of_int nread :: 32 word))]]
         @ freed buf\<rparr>"
  by (simp add: on_client_read_def op_defs freed_def split: option.splits)

lemma on_client_read_unknown:
  "wf_heap s \<Longrightarrow> heap s tcp = None \<Longrightarrow> nread \<noteq> eof \<Longrightarrow> 0 < nread \<Longrightarrow>
   on_client_read L eof tcp nread buf run s = invalid_access s"
  by (simp add: on_client_read_def handle_client_wf invalid_access_def)

lemma on_client_read_parse:
  assumes "wf_heap s" and "heap s tcp = Some cl" and "status s = Running"
    and "default_response s = init_default_response"
    and "nread \<noteq> eof" and "0 < nread"
  shows "\<exists>X. on_client_read L eof tcp nread buf run s = s\<lparr>trace := trace s @ X\<rparr>
          \<and> socket_ops X =
              replicate (count_list (fired run) Message_complete)
                (Uv_write (write_req_addr L tcp) tcp DEFAULT_RESPONSE)
              @ (if int (consumed run) < nread then [Uv_close tcp On_res_end] else [])"
proof -
  let ?log = "Log ''[ %3d ] request (len %ld)\<newline>%s''
                [LInt (sint (request_id cl)), LInt nread, LBuf (buf_base buf)]"
  let ?s2 = "s\<lparr>trace := trace s @ [?log]\<rparr>"
  have "wf_heap ?s2" "heap ?s2 tcp = Some cl" "status ?s2 = Running"
    "default_response ?s2 = init_default_response"
    using assms by simp_all
  from execute_wf_fixed [OF this, of L run]
  obtain Y where Y: "http_parser_execute L (parser_addr L tcp) run ?s2 =
            (consumed run, ?s2\<lparr>trace := trace ?s2 @ Y\<rparr>)"
    and opsY: "socket_ops Y =
              replicate (count_list (fired run) Message_complete)
                (Uv_write (write_req_addr L tcp) tcp DEFAULT_RESPONSE)"
    by blast
  let ?tail = "(if int (consumed run) < nread
               then [Log ''parsing http request'' [], Uv_close tcp On_res_end] else [])
              @ freed buf"
  have "on_client_read L eof tcp nread buf run s = s\<lparr>trace := trace s @ ([?log] @ Y @ ?tail)\<rparr>"
    using assms Y
    by (simp add: on_client_read_def handle_client_wf op_defs freed_def split: option.splits)
  moreover have "socket_ops ([?log] @ Y @ ?tail) =
              replicate (count_list (fired run) Message_complete)
                (Uv_write (write_req_addr L tcp) tcp DEFAULT_RESPONSE)
              @ (if int (consumed run) < nread then [Uv_close tcp On_res_end] else [])"
    using opsY by simp
  ultimately show ?thesis by blast
qed

lemma on_connect_fail:
  "st \<noteq> 0 \<Longrightarrow>
   on_connect L server st client r s =
     s\<lparr>trace := trace s @
         [Log ''%s: [%s(%d): %s]\<newline>''
            [LStr ''connecting'', LErr_name st, LInt st, LStrerror st]],
       status := Exited 1\<rparr>"
  by (simp add: on_connect_def op_defs)

lemma on_connect_ok:
  "on_connect L server 0 client r s =
     s\<lparr>request_id_counter := request_id_counter s + 1,
       heap := (heap s)(client \<mapsto>
         \<lparr>handle_data = Some client, parser_data = Some client,
          request_id = request_id_counter s\<rparr>),
       trace := trace s @
         [Log ''connecting client'' [], Uv_tcp_init client,
          Http_parser_init (parser_addr L client), Uv_accept server client]
         @ (if r \<noteq> 0
            then [Log ''error accepting connection %d'' [LInt r], Uv_close client NULL_cb]
            else [Uv_read_start client])\<rparr>"
  by (simp add: on_connect_def op_defs Let_def)

lemma server_inv_trace [simp]: "server_inv (s\<lparr>trace := t\<rparr>) = server_inv s"
  by (simp add: server_inv_def)

lemma server_inv_status [simp]: "server_inv (s\<lparr>status := t\<rparr>) = server_inv s"
  by (simp add: server_inv_def)

lemma server_inv_on_connect_ok: "server_inv s \<Longrightarrow> server_inv (on_connect L server 0 client r s)"
  by (simp add: on_connect_ok) (simp add: server_inv_def wf_heap_def)

lemma dispatch_step:
  assumes "server_inv s" and "status s = Running"
  shows "\<exists>X. trace (dispatch L eof ev s) = trace s @ X \<and> socket_ops X = ev_ops L eof s ev"
    and "server_inv (dispatch L eof ev s)"
proof -
  have wf: "wf_heap s" and dr: "default_response s = init_default_response"
    using assms(1) by (simp_all add: server_inv_def)
  show "\<exists>X. trace (dispatch L eof ev s) = trace s @ X \<and> socket_ops X = ev_ops L eof s ev"
  proof (cases ev)
    case (Connection server st client r)
    then show ?thesis
      by (cases "st = 0") (simp_all add: dispatch_def on_connect_ok on_connect_fail)
  next
    case (Client_read tcp nread buf run)
    show ?thesis
    proof (cases "nread = eof")
      case True
      then show ?thesis using Client_read assms(2)
        by (simp add: dispatch_def on_client_read_eof)
    next
      case ne: False
      show ?thesis
      proof (cases "0 < nread")
        case False
        then show ?thesis using Client_read assms(2) ne
          by (simp add: dispatch_def on_client_read_error)
      next
        case pos: True
        show ?thesis
        proof (cases "heap s tcp")
          case None
          then show ?thesis using Client_read ne pos wf
            by (simp add: dispatch_def on_client_read_unknown invalid_access_def)
        next
          case (Some cl)
          from on_client_read_parse [OF wf Some assms(2) dr ne pos, of L buf run]
          show ?thesis using Client_read ne pos Some
            by (auto simp add: dispatch_def)
        qed
      qed
    qed
  next
    case (Res_write req req_handle st)
    then show ?thesis
      by (simp add: dispatch_def on_res_write_def op_defs)
  next
    case (Res_end h)
    then show ?thesis
      by (simp add: dispatch_def on_res_end_def op_defs split: option.splits prod.splits)
  qed
  show "server_inv (dispatch L eof ev s)"
  proof (cases ev)
    case (Connection server st client r)
    then show ?thesis using assms(1)
      by (cases "st = 0") (simp_all add: dispatch_def server_inv_on_connect_ok on_connect_fail)
  next
    case (Client_read tcp nread buf run)
    show ?thesis
    proof (cases "nread \<noteq> eof \<and> 0 < nread")
      case False
      then show ?thesis using Client_read assms
        by (cases "nread = eof") (auto simp add: dispatch_def on_client_read_eof on_client_read_error)
    next
      case True
      show ?thesis
      proof (cases "heap s tcp")
        case None
        then show ?thesis using Client_read True wf assms(1)
          by (simp add: dispatch_def on_client_read_unknown invalid_access_def)
      next
        case (Some cl)
        from on_client_read_parse [OF wf Some assms(2) dr, of nread eof L buf run] True
        show ?thesis using Client_read assms(1)
          by (auto simp add: dispatch_def)
      qed
    qed
  next
    case (Res_write req req_handle st)
    then show ?thesis using assms(1)
      by (simp add: dispatch_def on_res_write_def op_defs)
  next
    case (Res_end h)
    then show ?thesis using assms(1)
      by (simp add: dispatch_def on_res_end_def op_defs split: option.splits prod.splits)
  qed
qed

lemma writes_on_socket_ops: "writes_on h (socket_ops X) = writes_on h X"
proof -
  have "\<And>a. (is_write_on h a \<and> is_socket_op a) = is_write_on h a"
    by (case_tac a) simp_all
  then show ?thesis by (simp add: writes_on_def socket_ops_def conj_commute)
qed

lemma is_write_socket_ops: "filter is_write (socket_ops X) = filter is_write X"
proof -
  have "\<And>a. (is_write a \<and> is_socket_op a) = is_write a"
    by (case_tac a) simp_all
  then show ?thesis by (simp add: socket_ops_def conj_commute)
qed

lemma closes_on_socket_ops: "closes_on h (socket_ops X) = closes_on h X"
proof -
  have "\<And>a. (is_close_on h a \<and> is_socket_op a) = is_close_on h a"
    by (case_tac a) simp_all
  then show ?thesis by (simp add: closes_on_def socket_ops_def conj_commute)
qed

lemma fixed_socket_ops: "list_all is_fixed_write (socket_ops X) = list_all is_fixed_write X"
proof (induction X)
  case Nil
  then show ?case by simp
next
  case (Cons a X)
  then show ?case by (cases a) simp_all
qed

lemma writes_on_append [simp]: "writes_on h (xs @ ys) = writes_on h xs @ writes_on h ys"
  by (simp add: writes_on_def)

lemma closes_on_append [simp]: "closes_on h (xs @ ys) = closes_on h xs @ closes_on h ys"
  by (simp add: closes_on_def)

lemma writes_on_replicate:
  "writes_on h (replicate n (Uv_write req tcp bs)) =
     (if tcp = h then replicate n (Uv_write req tcp bs) else [])"
  by (simp add: writes_on_def)

lemma closes_on_replicate_write [simp]: "closes_on h (replicate n (Uv_write req tcp bs)) = []"
  by (simp add: closes_on_def)

lemma ev_ops_writes: "length (writes_on h (ev_ops L eof s ev)) \<le> completions eof h ev"
  by (cases ev) (simp_all add: writes_on_replicate, simp_all add: writes_on_def)

lemma ev_ops_closes: "length (closes_on h (ev_ops L eof s ev)) \<le> closings eof h ev"
  by (cases ev) (simp_all, simp_all add: closes_on_def)

lemma ev_ops_fixed: "list_all is_fixed_write (ev_ops L eof s ev)"
  by (cases ev) (auto simp add: list_all_iff)

lemma uv_run_inv: "server_inv s \<Longrightarrow> server_inv (uv_run L eof evs s)"
  by (induction evs arbitrary: s) (simp_all add: dispatch_step(2))

lemma uv_run_ops:
  assumes "server_inv s"
  shows "\<exists>X. trace (uv_run L eof evs s) = trace s @ X
          \<and> length (writes_on h X) \<le> sum_list (map (completions eof h) evs)
          \<and> length (closes_on h X) \<le> sum_list (map (closings eof h) evs)
          \<and> list_all is_fixed_write X"
  using assms
proof (induction evs arbitrary: s)
  case Nil
  then show ?case by (simp add: writes_on_def closes_on_def)
next
  case (Cons ev evs)
  show ?case
  proof (cases "status s = Running")
    case False
    then show ?thesis by (simp add: writes_on_def closes_on_def)
  next
    case True
    from dispatch_step [OF Cons.prems True, of L eof ev]
    obtain Y where Y: "trace (dispatch L eof ev s) = trace s @ Y"
      and opsY: "socket_ops Y = ev_ops L eof s ev" and i: "server_inv (dispatch L eof ev s)"
      by blast
    from Cons.IH [OF i]
    obtain Z where Z: "trace (uv_run L eof evs (dispatch L eof ev s)) = trace (dispatch L eof ev s) @ Z"
      and wZ: "length (writes_on h Z) \<le> sum_list (map (completions eof h) evs)"
      and cZ: "length (closes_on h Z) \<le> sum_list (map (closings eof h) evs)"
      and fZ: "list_all is_fixed_write Z"
      by blast
    have wY: "length (writes_on h Y) \<le> completions eof h ev"
      using ev_ops_writes [of h L eof s ev] opsY writes_on_socket_ops [of h Y] by simp
    have cY: "length (closes_on h Y) \<le> closings eof h ev"
      using ev_ops_closes [of h L eof s ev] opsY closes_on_socket_ops [of h Y] by simp
    have fY: "list_all is_fixed_write Y"
      using ev_ops_fixed [of L eof s ev] opsY fixed_socket_ops [of Y] by simp
    have "trace (uv_run L eof (ev # evs) s) = trace s @ (Y @ Z)"
      using True Y Z by simp
    moreover have "length (writes_on h (Y @ Z)) \<le> sum_list (map (completions eof h) (ev # evs))"
      using wY wZ by simp
    moreover have "length (closes_on h (Y @ Z)) \<le> sum_list (map (closings eof h) (ev # evs))"
      using cY cZ by simp
    moreover have "list_all is_fixed_write (Y @ Z)"
      using fY fZ by simp
    ultimately show ?thesis by blast
  qed
qed

lemma main_startup_ok:
  "main_startup server 0 0 0 r_listen =
     initial_world\<lparr>default_response := init_default_response,
       trace := [Uv_ip4_addr ''0.0.0.0'' PORT, Uv_tcp_init server, Uv_tcp_bind server,
                 Uv_listen server BACKLOG,
                 Log ''listening on http://localhost:%d'' [LInt PORT]]\<rparr>"
  by (simp add: main_startup_def initial_world_def emit_def)

lemma server_inv_start: "server_inv (emit Uv_run (main_startup server 0 0 0 r_listen))"
  by (simp add: main_startup_ok emit_def server_inv_def wf_heap_def initial_world_def)

lemma server_inv_serving: "server_inv (serving L eof server r_listen evs)"
  by (simp add: serving_def uv_run_inv server_inv_start)

lemma serving_ops:
  "length (writes_on h (trace (serving L eof server r_listen evs)))
     \<le> sum_list (map (completions eof h) evs)
   \<and> length (closes_on h (trace (serving L eof server r_listen evs)))
     \<le> sum_list (map (closings eof h) evs)
   \<and> list_all is_fixed_write (trace (serving L eof server r_listen evs))"
proof -
  from uv_run_ops [OF server_inv_start, of L eof evs server r_listen h]
  obtain X where X: "trace (serving L eof server r_listen evs) =
      trace (emit Uv_run (main_startup server 0 0 0 r_listen)) @ X"
    and b: "length (writes_on h X) \<le> sum_list (map (completions eof h) evs)"
      "length (closes_on h X) \<le> sum_list (map (closings eof h) evs)"
      "list_all is_fixed_write X"
    by (auto simp add: serving_def)
  show ?thesis using b
    by (simp add: X main_startup_ok emit_def initial_world_def writes_on_def closes_on_def)
qed

subsection \<open>Runs of the loop\<close>

lemma uv_run_stopped: "status s \<noteq> Running \<Longrightarrow> uv_run L eof evs s = s"
  by (cases evs) simp_all

lemma uv_run_append: "uv_run L eof (xs @ ys) s = uv_run L eof ys (uv_run L eof xs s)"
  by (induction xs arbitrary: s) (simp_all add: uv_run_stopped)

lemma serving_snoc:
  "status (serving L eof server r_listen evs) = Running \<Longrightarrow>
   serving L eof server r_listen (evs @ [ev]) = dispatch L eof ev (serving L eof server r_listen evs)"
  by (simp add: serving_def uv_run_append)

lemma issued_by_append [simp]: "issued_by s (s\<lparr>trace := trace s @ X\<rparr>) = X"
  by (simp add: issued_by_def)

lemma fixed_write_iff:
  "list_all is_fixed_write tr = (\<forall>req h bytes. Uv_write req h bytes \<in> set tr \<longrightarrow> bytes = DEFAULT_RESPONSE)"
proof (induction tr)
  case Nil
  then show ?case by simp
next
  case (Cons a tr)
  then show ?case by (cases a) auto
qed

lemma write_in_socket_ops:
  "Uv_write req h bytes \<in> set (socket_ops X) \<Longrightarrow> Uv_write req h bytes \<in> set X"
  by (simp add: socket_ops_def)

lemma main_startup_status: "status (main_startup server 0 0 0 r_listen) = Running"
  by (simp add: main_startup_ok initial_world_def)

lemma issued_by_on_connect_ok:
  "issued_by s (on_connect L server 0 client r s) =
     [Log ''connecting client'' [], Uv_tcp_init client,
      Http_parser_init (parser_addr L client), Uv_accept server client]
     @ (if r \<noteq> 0
        then [Log ''error accepting connection %d'' [LInt r], Uv_close client NULL_cb]
        else [Uv_read_start client])"
  by (simp add: on_connect_ok issued_by_def)

subsection \<open>The request id counter\<close>

lemma counter_dispatch:
  assumes "server_inv s" and "status s = Running"
  shows "request_id_counter (dispatch L eof ev s) =
           request_id_counter s + (if allocates ev then 1 else 0)"
proof -
  have wf: "wf_heap s" and dr: "default_response s = init_default_response"
    using assms(1) by (simp_all add: server_inv_def)
  show ?thesis
  proof (cases ev)
    case (Connection server st client r)
    then show ?thesis
      by (cases "st = 0") (simp_all add: dispatch_def on_connect_ok on_connect_fail)
  next
    case (Client_read tcp nread buf run)
    show ?thesis
    proof (cases "nread \<noteq> eof \<and> 0 < nread")
      case False
      then show ?thesis using Client_read assms
        by (cases "nread = eof")
          (auto simp add: dispatch_def on_client_read_eof on_client_read_error)
    next
      case True
      show ?thesis
      proof (cases "heap s tcp")
        case None
        then show ?thesis using Client_read True wf
          by (simp add: dispatch_def on_client_read_unknown invalid_access_def)
      next
        case (Some cl)
        from on_client_read_parse [OF wf Some assms(2) dr, of nread eof L buf run] True
        show ?thesis using Client_read
          by (auto simp add: dispatch_def)
      qed
    qed
  next
    case (Res_write req req_handle st)
    then show ?thesis
      by (simp add: dispatch_def on_res_write_def op_defs)
  next
    case (Res_end h)
    then show ?thesis
      by (simp add: dispatch_def on_res_end_def op_defs split: option.splits prod.splits)
  qed
qed

lemma counter_uv_run:
  assumes "server_inv s" and "status (uv_run L eof evs s) = Running"
  shows "request_id_counter (uv_run L eof evs s) =
           request_id_counter s + of_nat (length (filter allocates evs))"
  using assms
proof (induction evs arbitrary: s)
  case Nil
  then show ?case by simp
next
  case (Cons ev evs)
  have r: "status s = Running"
  proof (rule ccontr)
    assume "status s \<noteq> Running"
    then show False using Cons.prems(2) by simp
  qed
  have i: "server_inv (dispatch L eof ev s)"
    using dispatch_step(2) [OF Cons.prems(1) r] .
  have "status (uv_run L eof evs (dispatch L eof ev s)) = Running"
    using Cons.prems(2) r by simp
  from Cons.IH [OF i this] counter_dispatch [OF Cons.prems(1) r, of L eof ev]
  show ?case using r by simp
qed

lemma counter_serving:
  assumes "status (serving L eof server r_listen evs) = Running"
  shows "request_id_counter (serving L eof server r_listen evs) =
           of_nat (length (filter allocates evs))"
  using counter_uv_run [OF server_inv_start, of L eof evs server r_listen] assms
  by (simp add: serving_def main_startup_ok emit_def initial_world_def)

lemma sint_of_nat_32:
  "n < 2147483648 \<Longrightarrow> sint (of_nat n :: 32 word) = int n"
  by (simp add: signed_of_nat signed_take_bit_int_eq_self)

lemma read_request_id_on_connect:
  "read_request_id (on_connect L server 0 client r s) client = Some (request_id_counter s)"
  by (simp add: on_connect_ok read_request_id_def)

lemma uv_run_accepts:
  "status s = Running \<Longrightarrow> list_all (\<lambda>ev. \<exists>server client r. ev = Connection server 0 client r) evs \<Longrightarrow>
   status (uv_run L eof evs s) = Running"
  by (induction evs arbitrary: s) (auto simp add: dispatch_def on_connect_ok)

lemma many_accepts_allocate: "length (filter allocates many_accepts) = 2147483647"
proof -
  have "filter allocates many_accepts = many_accepts"
    unfolding many_accepts_def by (simp add: filter_map o_def)
  then show ?thesis by (simp add: many_accepts_def)
qed

lemma many_accepts_running:
  "status (serving example_layout (- 4095) 500 0 many_accepts) = Running"
proof -
  have "list_all (\<lambda>ev. \<exists>server client r. ev = Connection server 0 client r) many_accepts"
    unfolding many_accepts_def by (simp add: list_all_iff)
  then show ?thesis
    by (simp add: serving_def uv_run_accepts main_startup_status emit_def)
qed

subsection \<open>The example inputs\<close>

lemma one_client_eq:
  "one_client =
     \<lparr>request_id_counter = 1, default_response = init_default_response,
      heap = (\<lambda>a. None)(1000 \<mapsto> \<lparr>handle_data = Some 1000, parser_data = Some 1000, request_id = 0\<rparr>),
      trace = [Uv_ip4_addr ''0.0.0.0'' PORT, Uv_tcp_init 500, Uv_tcp_bind 500,
               Uv_listen 500 BACKLOG,
               Log ''listening on http://localhost:%d'' [LInt PORT], Uv_run,
               Log ''connecting client'' [], Uv_tcp_init 1000,
               Http_parser_init (parser_addr example_layout 1000), Uv_accept 500 1000,
               Uv_read_start 1000],
      status = Running\<rparr>"
  by (simp add: one_client_def serving_def main_startup_ok emit_def initial_world_def
      dispatch_def on_connect_ok)

lemma one_client_facts:
  "status one_client = Running" "heap one_client 1000 \<noteq> None"
  by (simp_all add: one_client_eq)

lemma fired_get_run:
  "fired get_run = [Message_begin, Url (drop 4 get_request) 1, Header_field (drop 16 get_request) 4,
     Header_value (drop 22 get_request) 1, Headers_complete, Message_complete]"
  by (simp add: get_run_def)

lemma consumed_get_run: "consumed get_run = 27"
  by (simp add: get_run_def)

lemma fired_garbage_run:
  "fired garbage_run = [Message_begin, Url (drop 4 garbage_chunk) 1, Headers_complete,
     Message_complete, Message_begin]"
  "consumed garbage_run = 19"
  by (simp_all add: garbage_run_def)

lemma fired_pipelined_run:
  "count_list (fired pipelined_run) Message_complete = 2"
  "consumed pipelined_run = 36"
  by (simp_all add: pipelined_run_def)

lemma write_req_addr_example: "write_req_addr example_layout 1000 = 1280"
  by (simp add: write_req_addr_def offsetof_write_req_def client_t_members_def example_layout_def
      align_up_def)

lemma pipelined_client_eq:
  "pipelined_client =
     on_client_read example_layout (- 4095) 1000 36 pipelined_buf pipelined_run one_client"
  using serving_snoc [of example_layout "- 4095" 500 0 "[Connection 500 0 1000 0]"
      "Client_read 1000 36 pipelined_buf pipelined_run"]
  by (simp add: one_client_def [symmetric] pipelined_client_def one_client_facts dispatch_def)

section \<open>The claims\<close>

subsection \<open>C1: the response is the fixed byte sequence\<close>

text \<open>
  C1. Take the server after a successful startup and any sequence of events, a connection
  \<open>tcp\<close> that the accept callback allocated, and a chunk on which the parser invokes
  message-complete. Then the writes that the read callback issues are, for each
  message-complete, one write on that connection, through the connection's own write
  request, of exactly the 77 bytes
  \<^verbatim>\<open>HTTP/1.1 200 OK\r\nContent-Type: text/plain\r\nContent-Length: 12\r\n\r\nhello world\n\<close>
  and no other write: exactly one write for a chunk with one message. Every write in the
  trace of the run, on whichever connection and whatever method, path or headers the
  callbacks carried, sends exactly these bytes.
\<close>

theorem fixed_response_on_message_complete:
  assumes "s = serving L eof server r_listen evs"
    and "status s = Running"
    and "heap s tcp \<noteq> None"
    and "nread \<noteq> eof" and "0 < nread"
    and "Message_complete \<in> set (fired run)"
    and "s' = on_client_read L eof tcp nread buf run s"
  shows "filter is_write (issued_by s s') =
           replicate (count_list (fired run) Message_complete)
             (Uv_write (write_req_addr L tcp) tcp
                (''HTTP/1.1 200 OK'' @ [CHR 0x0D, CHR 0x0A]
                  @ ''Content-Type: text/plain'' @ [CHR 0x0D, CHR 0x0A]
                  @ ''Content-Length: 12'' @ [CHR 0x0D, CHR 0x0A, CHR 0x0D, CHR 0x0A]
                  @ ''hello world'' @ [CHR 0x0A]))
       \<and> 0 < count_list (fired run) Message_complete
       \<and> (count_list (fired run) Message_complete = 1 \<longrightarrow>
            filter is_write (issued_by s s') =
              [Uv_write (write_req_addr L tcp) tcp
                 (''HTTP/1.1 200 OK'' @ [CHR 0x0D, CHR 0x0A]
                   @ ''Content-Type: text/plain'' @ [CHR 0x0D, CHR 0x0A]
                   @ ''Content-Length: 12'' @ [CHR 0x0D, CHR 0x0A, CHR 0x0D, CHR 0x0A]
                   @ ''hello world'' @ [CHR 0x0A])])
       \<and> (\<forall>req h bytes. Uv_write req h bytes \<in> set (trace s') \<longrightarrow>
            bytes =
              (''HTTP/1.1 200 OK'' @ [CHR 0x0D, CHR 0x0A]
                @ ''Content-Type: text/plain'' @ [CHR 0x0D, CHR 0x0A]
                @ ''Content-Length: 12'' @ [CHR 0x0D, CHR 0x0A, CHR 0x0D, CHR 0x0A]
                @ ''hello world'' @ [CHR 0x0A]))"
proof -
  have i: "server_inv s" using assms(1) by (simp add: server_inv_serving)
  then have wf: "wf_heap s" and dr: "default_response s = init_default_response"
    by (simp_all add: server_inv_def)
  from assms(3) obtain cl where cl: "heap s tcp = Some cl" by blast
  from on_client_read_parse [OF wf cl assms(2) dr assms(4,5), of L buf run]
  obtain X where X: "s' = s\<lparr>trace := trace s @ X\<rparr>"
    and ops: "socket_ops X =
              replicate (count_list (fired run) Message_complete)
                (Uv_write (write_req_addr L tcp) tcp DEFAULT_RESPONSE)
              @ (if int (consumed run) < nread then [Uv_close tcp On_res_end] else [])"
    using assms(7) by blast
  have n: "0 < count_list (fired run) Message_complete"
    using assms(6) count_list_0_iff [of "fired run" Message_complete] by simp
  have "filter is_write X = filter is_write (socket_ops X)"
    by (simp add: is_write_socket_ops)
  then have w: "filter is_write (issued_by s s') =
      replicate (count_list (fired run) Message_complete)
        (Uv_write (write_req_addr L tcp) tcp DEFAULT_RESPONSE)"
    by (simp add: X ops)
  have "s' = serving L eof server r_listen (evs @ [Client_read tcp nread buf run])"
    using assms(1,2,7) serving_snoc [of L eof server r_listen evs] by (simp add: dispatch_def)
  then have "list_all is_fixed_write (trace s')"
    using serving_ops [of tcp L eof server r_listen "evs @ [Client_read tcp nread buf run]"]
    by simp
  then have f: "\<forall>req h bytes. Uv_write req h bytes \<in> set (trace s') \<longrightarrow> bytes = DEFAULT_RESPONSE"
    by (simp add: fixed_write_iff)
  show ?thesis
    using w n f unfolding DEFAULT_RESPONSE_bytes by simp
qed

text \<open>
  The request \<open>GET /\<close> with a \<open>Host\<close> header on the one connection of the example: the
  one write of the callback.
\<close>

theorem fixed_response_on_message_complete_witness:
  "status one_client = Running \<and> heap one_client 1000 \<noteq> None
   \<and> (27::int) \<noteq> - 4095 \<and> (0::int) < 27
   \<and> Message_complete \<in> set (fired get_run)
   \<and> count_list (fired get_run) Message_complete = 1
   \<and> filter is_write (issued_by one_client
         (on_client_read example_layout (- 4095) 1000 27 example_buf get_run one_client)) =
       [Uv_write 1280 1000
          (''HTTP/1.1 200 OK'' @ [CHR 0x0D, CHR 0x0A]
            @ ''Content-Type: text/plain'' @ [CHR 0x0D, CHR 0x0A]
            @ ''Content-Length: 12'' @ [CHR 0x0D, CHR 0x0A, CHR 0x0D, CHR 0x0A]
            @ ''hello world'' @ [CHR 0x0A])]"
  using fixed_response_on_message_complete
    [of one_client example_layout "- 4095" 500 0 "[Connection 500 0 1000 0]" 1000 27 get_run
        "on_client_read example_layout (- 4095) 1000 27 example_buf get_run one_client" example_buf]
  by (simp add: one_client_def [symmetric] one_client_facts fired_get_run
      write_req_addr_example)

subsection \<open>C2: chunks that the parser consumes in part\<close>

text \<open>
  C2 (as stated): a chunk of which the parser consumes fewer bytes than it was given
  leaves the connection with zero bytes written, also when message-complete fired earlier
  in that chunk. On the 25-byte chunk of a request followed by garbage the parser returns
  19, and the read callback has by then issued the write of the response on the
  connection.
\<close>

theorem response_written_before_partial_consumption_close:
  "int (consumed garbage_run) < 25
   \<and> writes_on 1000 (issued_by one_client
         (on_client_read example_layout (- 4095) 1000 25 garbage_buf garbage_run one_client)) =
       [Uv_write 1280 1000 DEFAULT_RESPONSE]"
proof -
  have i: "server_inv one_client" by (simp add: one_client_def server_inv_serving)
  then have wf: "wf_heap one_client"
    and dr: "default_response one_client = init_default_response"
    by (simp_all add: server_inv_def)
  obtain cl where cl: "heap one_client 1000 = Some cl" using one_client_facts(2) by blast
  have "(25::int) \<noteq> - 4095" "(0::int) < 25" by simp_all
  from on_client_read_parse [OF wf cl one_client_facts(1) dr this, of example_layout garbage_buf garbage_run]
  obtain X where X: "on_client_read example_layout (- 4095) 1000 25 garbage_buf garbage_run one_client
      = one_client\<lparr>trace := trace one_client @ X\<rparr>"
    and ops: "socket_ops X = [Uv_write 1280 1000 DEFAULT_RESPONSE, Uv_close 1000 On_res_end]"
    by (auto simp add: fired_garbage_run write_req_addr_example)
  have "writes_on 1000 X = writes_on 1000 (socket_ops X)"
    by (simp add: writes_on_socket_ops)
  then show ?thesis by (simp add: X ops fired_garbage_run writes_on_def)
qed

text \<open>
  C2 (amended): for a chunk of which the parser consumes fewer bytes than it was given
  (the count it returns is \<open>consumed run\<close>), the read callback issues a close with
  \<open>on_res_end\<close> on the connection's handle right after the parser returns and no write
  of its own. The writes issued while the chunk is processed are one write of the fixed
  response for each message-complete callback the parser invoked on it, all before the
  close; no byte is written for the chunk exactly when no message-complete fired in it.
\<close>

theorem partial_consumption_closes:
  assumes "s = serving L eof server r_listen evs"
    and "status s = Running"
    and "heap s tcp \<noteq> None"
    and "nread \<noteq> eof" and "0 < nread"
    and "int (consumed run) < nread"
    and "s' = on_client_read L eof tcp nread buf run s"
  shows "fst (http_parser_execute L (parser_addr L tcp) run s) = consumed run
       \<and> socket_ops (issued_by s s') =
           replicate (count_list (fired run) Message_complete)
             (Uv_write (write_req_addr L tcp) tcp DEFAULT_RESPONSE)
           @ [Uv_close tcp On_res_end]
       \<and> status s' = Running"
proof -
  have i: "server_inv s" using assms(1) by (simp add: server_inv_serving)
  then have wf: "wf_heap s" and dr: "default_response s = init_default_response"
    by (simp_all add: server_inv_def)
  from assms(3) obtain cl where cl: "heap s tcp = Some cl" by blast
  from on_client_read_parse [OF wf cl assms(2) dr assms(4,5), of L buf run]
  obtain X where X: "s' = s\<lparr>trace := trace s @ X\<rparr>"
    and ops: "socket_ops X =
              replicate (count_list (fired run) Message_complete)
                (Uv_write (write_req_addr L tcp) tcp DEFAULT_RESPONSE)
              @ (if int (consumed run) < nread then [Uv_close tcp On_res_end] else [])"
    using assms(7) by blast
  from execute_wf [OF wf cl assms(2), of L run]
  have "fst (http_parser_execute L (parser_addr L tcp) run s) = consumed run"
    by auto
  then show ?thesis using X ops assms(2,6) by simp
qed

text \<open>The chunk with garbage after a request: one write, then the close.\<close>

theorem partial_consumption_closes_witness:
  "int (consumed garbage_run) < 25
   \<and> socket_ops (issued_by one_client
         (on_client_read example_layout (- 4095) 1000 25 garbage_buf garbage_run one_client)) =
       [Uv_write 1280 1000 DEFAULT_RESPONSE, Uv_close 1000 On_res_end]"
  using partial_consumption_closes
    [of one_client example_layout "- 4095" 500 0 "[Connection 500 0 1000 0]" 1000 25 garbage_run
        "on_client_read example_layout (- 4095) 1000 25 garbage_buf garbage_run one_client"
        garbage_buf]
  by (simp add: one_client_def [symmetric] one_client_facts fired_garbage_run
      write_req_addr_example)

subsection \<open>C3: the length of the response\<close>

text \<open>
  C3 (as stated): the length of the fixed response, computed by \<open>strlen\<close> of the literal
  in \<open>main\<close>, is 90. It is not.
\<close>

theorem default_response_len_not_90:
  "buf_len (default_response (main_startup 0 0 0 0 0)) \<noteq> 90"
  by (simp add: default_response_main_startup buf_len_init_default_response)

text \<open>
  C3 (amended): whatever the startup calls return, \<open>main\<close> sets the length of the fixed
  response buffer to 77, the number of bytes of the response literal, and a write of that
  buffer sends exactly these 77 bytes: 17 for the status line, 26 and 20 for the two
  headers, 2 for the empty line and 12 for the body.
\<close>

theorem default_response_len_77:
  "buf_len (default_response (main_startup server r_addr r_init r_bind r_listen)) = 77
   \<and> buf_bytes (default_response (main_startup server r_addr r_init r_bind r_listen))
       = DEFAULT_RESPONSE
   \<and> length DEFAULT_RESPONSE = 77"
  by (simp add: default_response_main_startup buf_bytes_init_default_response
      length_DEFAULT_RESPONSE buf_len_init_default_response)

subsection \<open>C4: writes and closes per connection\<close>

text \<open>
  C4 (as stated): a connection gets at most one write and at most one close in its
  lifetime. Neither half holds. A chunk with two requests makes the parser invoke
  message-complete twice inside one call, and the read callback issues two writes. And a
  connection that sends one request and then ends its stream before the write completion
  is delivered, with one message-complete in all, is closed by the read callback at the
  end of stream and again by the write completion callback.
\<close>

theorem two_writes_and_two_closes:
  "writes_on 1000 (trace pipelined_client) =
     [Uv_write 1280 1000 DEFAULT_RESPONSE, Uv_write 1280 1000 DEFAULT_RESPONSE]
   \<and> sum_list (map (completions (- 4095) 1000) request_then_eof) = 1
   \<and> closes_on 1000 (trace (serving example_layout (- 4095) 500 0 request_then_eof)) =
       [Uv_close 1000 NULL_cb, Uv_close 1000 On_res_end]"
proof -
  have i: "server_inv one_client" by (simp add: one_client_def server_inv_serving)
  then have wf: "wf_heap one_client"
    and dr: "default_response one_client = init_default_response"
    by (simp_all add: server_inv_def)
  obtain cl where cl: "heap one_client 1000 = Some cl" using one_client_facts(2) by blast
  have "(36::int) \<noteq> - 4095" "(0::int) < 36" by simp_all
  from on_client_read_parse [OF wf cl one_client_facts(1) dr this,
      of example_layout pipelined_buf pipelined_run]
  obtain X where X: "pipelined_client = one_client\<lparr>trace := trace one_client @ X\<rparr>"
    and ops: "socket_ops X =
      [Uv_write 1280 1000 DEFAULT_RESPONSE, Uv_write 1280 1000 DEFAULT_RESPONSE]"
    by (auto simp add: fired_pipelined_run write_req_addr_example pipelined_client_eq
        numeral_2_eq_2)
  have "writes_on 1000 X = writes_on 1000 (socket_ops X)"
    by (simp add: writes_on_socket_ops)
  then have "writes_on 1000 X =
      [Uv_write 1280 1000 DEFAULT_RESPONSE, Uv_write 1280 1000 DEFAULT_RESPONSE]"
    by (simp add: ops writes_on_def)
  moreover have "writes_on 1000 (trace one_client) = []"
    by (simp add: one_client_eq writes_on_def)
  ultimately have A: "writes_on 1000 (trace pipelined_client) =
      [Uv_write 1280 1000 DEFAULT_RESPONSE, Uv_write 1280 1000 DEFAULT_RESPONSE]"
    by (simp add: X)
  have B: "sum_list (map (completions (- 4095) 1000) request_then_eof) = 1"
    by (simp add: request_then_eof_def fired_get_run)
  have "(27::int) \<noteq> - 4095" "(0::int) < 27" by simp_all
  from on_client_read_parse [OF wf cl one_client_facts(1) dr this,
      of example_layout example_buf get_run]
  obtain Y where Y: "on_client_read example_layout (- 4095) 1000 27 example_buf get_run one_client
      = one_client\<lparr>trace := trace one_client @ Y\<rparr>"
    and opsY: "socket_ops Y = [Uv_write 1280 1000 DEFAULT_RESPONSE]"
    by (auto simp add: fired_get_run consumed_get_run write_req_addr_example)
  let ?s2 = "one_client\<lparr>trace := trace one_client @ Y\<rparr>"
  have s2: "serving example_layout (- 4095) 500 0
      [Connection 500 0 1000 0, Client_read 1000 27 example_buf get_run] = ?s2"
    using serving_snoc [of example_layout "- 4095" 500 0 "[Connection 500 0 1000 0]"
      "Client_read 1000 27 example_buf get_run"]
    by (simp add: one_client_def [symmetric] one_client_facts dispatch_def Y)
  have r2: "status ?s2 = Running" by (simp add: one_client_facts)
  let ?s3 = "on_client_read example_layout (- 4095) 1000 (- 4095) example_buf (Return 0) ?s2"
  have s3: "serving example_layout (- 4095) 500 0
      [Connection 500 0 1000 0, Client_read 1000 27 example_buf get_run,
       Client_read 1000 (- 4095) example_buf (Return 0)] = ?s3"
    using serving_snoc [of example_layout "- 4095" 500 0
      "[Connection 500 0 1000 0, Client_read 1000 27 example_buf get_run]"
      "Client_read 1000 (- 4095) example_buf (Return 0)"] r2
    by (simp add: s2 dispatch_def)
  have e3: "?s3 = ?s2\<lparr>trace := trace ?s2 @
         [Uv_close 1000 NULL_cb, Log ''closed client tcp connection due to unexpected EOF'' []]
         @ freed example_buf\<rparr>"
    using r2 by (rule on_client_read_eof)
  have r3: "status ?s3 = Running" by (simp only: e3) (simp add: one_client_facts)
  have s4: "serving example_layout (- 4095) 500 0 request_then_eof =
      on_res_write 1280 1000 0 ?s3"
    using serving_snoc [of example_layout "- 4095" 500 0
      "[Connection 500 0 1000 0, Client_read 1000 27 example_buf get_run,
        Client_read 1000 (- 4095) example_buf (Return 0)]"
      "Res_write 1280 1000 0"] r3
    by (simp add: s3 dispatch_def request_then_eof_def)
  have cY: "closes_on 1000 Y = []"
    using closes_on_socket_ops [of 1000 Y] by (simp add: opsY closes_on_def)
  have c1: "closes_on 1000 (trace one_client) = []"
    by (simp add: one_client_eq closes_on_def)
  have t4: "trace (on_res_write 1280 1000 0 ?s3) =
      trace one_client @ Y
      @ [Uv_close 1000 NULL_cb, Log ''closed client tcp connection due to unexpected EOF'' []]
      @ freed example_buf @ [Uv_close 1000 On_res_end]"
    by (simp only: e3) (simp add: on_res_write_def uv_close_def emit_def)
  have C: "closes_on 1000 (trace (serving example_layout (- 4095) 500 0 request_then_eof)) =
      [Uv_close 1000 NULL_cb, Uv_close 1000 On_res_end]"
    by (simp only: s4 t4 closes_on_append c1 cY)
       (simp add: closes_on_def freed_def split: option.splits)
  show ?thesis using A B C by simp
qed

text \<open>
  C4 (amended): after a successful startup and any sequence of events, a connection on
  whose chunks the parser invoked message-complete at most once has at most one write
  issued on its socket, so that no second write comes before the completion of the first;
  and a connection for which at most one closing event was delivered (a failed
  \<open>uv_accept\<close>, an end-of-stream read, a chunk consumed in part, a write completed
  with status 0) has at most one close issued on its handle.
\<close>

theorem writes_and_closes_bounded:
  "(sum_list (map (completions eof h) evs) \<le> 1 \<longrightarrow>
      length (writes_on h (trace (serving L eof server r_listen evs))) \<le> 1)
   \<and> (sum_list (map (closings eof h) evs) \<le> 1 \<longrightarrow>
      length (closes_on h (trace (serving L eof server r_listen evs))) \<le> 1)"
  using serving_ops [of h L eof server r_listen evs] by linarith

text \<open>
  One request, its write completion and the close completion: one message-complete and one
  closing event, so at most one write and one close.
\<close>

theorem writes_and_closes_bounded_witness:
  "sum_list (map (completions (- 4095) 1000)
      [Connection 500 0 1000 0, Client_read 1000 27 example_buf get_run, Res_write 1280 1000 0,
       Res_end 1000]) \<le> 1
   \<and> length (writes_on 1000 (trace (serving example_layout (- 4095) 500 0
      [Connection 500 0 1000 0, Client_read 1000 27 example_buf get_run, Res_write 1280 1000 0,
       Res_end 1000]))) \<le> 1
   \<and> sum_list (map (closings (- 4095) 1000)
      [Connection 500 0 1000 0, Client_read 1000 27 example_buf get_run, Res_write 1280 1000 0,
       Res_end 1000]) \<le> 1
   \<and> length (closes_on 1000 (trace (serving example_layout (- 4095) 500 0
      [Connection 500 0 1000 0, Client_read 1000 27 example_buf get_run, Res_write 1280 1000 0,
       Res_end 1000]))) \<le> 1"
  using writes_and_closes_bounded [of "- 4095" 1000
      "[Connection 500 0 1000 0, Client_read 1000 27 example_buf get_run, Res_write 1280 1000 0,
       Res_end 1000]" example_layout 500 0]
  by (simp add: fired_get_run consumed_get_run)

subsection \<open>C5: end of stream\<close>

text \<open>
  C5. When the read callback reports end of stream on a connection, the callback issues
  exactly one socket operation, the close of that connection (without close callback), and
  no write; the process keeps running. If no message-complete fired on the connection
  before, that is, the client left before a complete header block was parsed, then no
  write has been issued on the connection at all.
\<close>

theorem eof_closes_without_response:
  assumes "s = serving L eof server r_listen evs"
    and "status s = Running"
    and "s' = on_client_read L eof tcp eof buf run s"
  shows "socket_ops (issued_by s s') = [Uv_close tcp NULL_cb]
       \<and> status s' = Running
       \<and> (sum_list (map (completions eof tcp) evs) = 0 \<longrightarrow> writes_on tcp (trace s') = [])"
proof -
  have s': "s' = s\<lparr>trace := trace s @
         [Uv_close tcp NULL_cb, Log ''closed client tcp connection due to unexpected EOF'' []]
         @ freed buf\<rparr>"
    using assms(2,3) by (simp add: on_client_read_eof)
  have b: "length (writes_on tcp (trace s)) \<le> sum_list (map (completions eof tcp) evs)"
    using serving_ops [of tcp L eof server r_listen evs] assms(1) by simp
  have new: "writes_on tcp (trace s') = writes_on tcp (trace s)"
    by (simp add: s' writes_on_def freed_def split: option.splits)
  have "sum_list (map (completions eof tcp) evs) = 0 \<longrightarrow> writes_on tcp (trace s') = []"
  proof
    assume "sum_list (map (completions eof tcp) evs) = 0"
    with b have "length (writes_on tcp (trace s)) = 0" by linarith
    then show "writes_on tcp (trace s') = []" using new by simp
  qed
  moreover have "socket_ops (issued_by s s') = [Uv_close tcp NULL_cb]"
    by (simp add: s')
  moreover have "status s' = Running"
    using assms(2) by (simp add: s')
  ultimately show ?thesis by blast
qed

text \<open>End of stream on the one connection of the example, which sent nothing.\<close>

theorem eof_closes_without_response_witness:
  "status one_client = Running
   \<and> socket_ops (issued_by one_client
         (on_client_read example_layout (- 4095) 1000 (- 4095) example_buf (Return 0) one_client))
       = [Uv_close 1000 NULL_cb]
   \<and> sum_list (map (completions (- 4095) 1000) [Connection 500 0 1000 0]) = 0
   \<and> writes_on 1000 (trace
         (on_client_read example_layout (- 4095) 1000 (- 4095) example_buf (Return 0) one_client))
       = []"
  using eof_closes_without_response
    [of one_client example_layout "- 4095" 500 0 "[Connection 500 0 1000 0]"
        "on_client_read example_layout (- 4095) 1000 (- 4095) example_buf (Return 0) one_client"
        1000 example_buf "Return 0"]
  by (simp add: one_client_def [symmetric] one_client_facts)

subsection \<open>C6: accept and read failures\<close>

text \<open>
  C6 (as stated): every accept failure is survived by the process. A connection event
  that arrives with the failure status \<open>-24\<close> (no file descriptor left for
  \<open>accept\<close>) ends the process with \<open>exit(1)\<close>: \<open>on_connect\<close> begins with
  \<open>CHECK(status, "connecting")\<close>.
\<close>

theorem failed_connection_event_exits:
  "status (serving example_layout (- 4095) 500 0 [Connection 500 (- 24) 1000 0]) = Exited 1"
  by (simp add: serving_def main_startup_status emit_def dispatch_def on_connect_fail)

text \<open>
  C6 (amended): when \<open>uv_accept\<close> fails inside the accept callback (a result other than
  0, the callback having been entered with status 0), the only socket operation is the
  close of the new connection, the process keeps running, and a connection that arrives
  next is accepted and read as usual. A read failure (a negative count other than end of
  stream) does not end the process either, and a connection that arrives next is accepted
  and read as usual. A connection event delivered with a status other than 0 ends the
  process through \<open>CHECK\<close>.
\<close>

theorem accept_and_read_failures:
  assumes "status s = Running"
  shows "(r \<noteq> 0 \<longrightarrow>
            status (on_connect L server 0 client r s) = Running
          \<and> socket_ops (issued_by s (on_connect L server 0 client r s)) = [Uv_close client NULL_cb]
          \<and> Uv_read_start client'
              \<in> set (trace (uv_run L eof
                    [Connection server 0 client r, Connection server 0 client' 0] s)))
       \<and> (nread < 0 \<and> nread \<noteq> eof \<longrightarrow>
            status (on_client_read L eof tcp nread buf run s) = Running
          \<and> Uv_read_start client'
              \<in> set (trace (uv_run L eof
                    [Client_read tcp nread buf run, Connection server 0 client' 0] s)))
       \<and> (st \<noteq> 0 \<longrightarrow> status (on_connect L server st client r s) = Exited 1)"
proof -
  have a: "status (on_connect L server 0 client r s) = Running"
    using assms by (simp add: on_connect_ok)
  have b: "r \<noteq> 0 \<Longrightarrow>
      socket_ops (issued_by s (on_connect L server 0 client r s)) = [Uv_close client NULL_cb]"
    by (simp add: issued_by_on_connect_ok)
  have c: "Uv_read_start client'
      \<in> set (trace (uv_run L eof
            [Connection server 0 client r, Connection server 0 client' 0] s))"
    using assms a by (simp add: dispatch_def) (simp add: on_connect_ok [of L server client' 0])
  have d: "nread < 0 \<and> nread \<noteq> eof \<Longrightarrow>
      status (on_client_read L eof tcp nread buf run s) = Running"
    using assms by (simp add: on_client_read_error)
  have d': "nread < 0 \<and> nread \<noteq> eof \<Longrightarrow>
      Uv_read_start client'
        \<in> set (trace (uv_run L eof
              [Client_read tcp nread buf run, Connection server 0 client' 0] s))"
    using assms d by (simp add: dispatch_def) (simp add: on_connect_ok [of L server client' 0])
  have e: "st \<noteq> 0 \<Longrightarrow> status (on_connect L server st client r s) = Exited 1"
    by (simp add: on_connect_fail)
  show ?thesis using a b c d d' e by blast
qed

text \<open>A failed \<open>uv_accept\<close>, a reset connection and a failed connection event.\<close>

theorem accept_and_read_failures_witness:
  "status one_client = Running
   \<and> status (on_connect example_layout 500 0 2000 (- 24) one_client) = Running
   \<and> socket_ops (issued_by one_client (on_connect example_layout 500 0 2000 (- 24) one_client))
       = [Uv_close 2000 NULL_cb]
   \<and> Uv_read_start 3000
        \<in> set (trace (uv_run example_layout (- 4095)
              [Connection 500 0 2000 (- 24), Connection 500 0 3000 0] one_client))
   \<and> status (on_client_read example_layout (- 4095) 1000 (- 104) example_buf (Return 0)
         one_client) = Running
   \<and> Uv_read_start 3000
        \<in> set (trace (uv_run example_layout (- 4095)
              [Client_read 1000 (- 104) example_buf (Return 0), Connection 500 0 3000 0]
              one_client))
   \<and> status (on_connect example_layout 500 (- 24) 2000 (- 24) one_client) = Exited 1"
  using accept_and_read_failures
    [of one_client "- 24" example_layout 500 2000 3000 "- 4095" "- 104" 1000 example_buf
        "Return 0" "- 24"]
  by (simp add: one_client_facts)

subsection \<open>C7: startup failures\<close>

text \<open>
  The result of \<open>uv_tcp_bind\<close> is checked: a failure ends the process before the loop
  starts. The result of \<open>uv_listen\<close> does not reach the state.
\<close>

lemma main_startup_listen_ignored:
  "main_startup server 0 0 0 r_listen = main_startup server 0 0 0 0"
  by (simp add: main_startup_ok)

lemma bind_failure_exits:
  "r_bind \<noteq> 0 \<Longrightarrow>
   status (main L eof server 0 0 r_bind r_listen evs) = Exited 1
   \<and> Uv_run \<notin> set (trace (main L eof server 0 0 r_bind r_listen evs))"
  by (simp add: main_def main_startup_def initial_world_def op_defs)

text \<open>
  C7: a bind failure or a listen failure aborts the process before it serves a
  connection. For a listen failure the code does not do so: with \<open>uv_listen\<close> returning
  \<open>-98\<close> (address in use) \<open>main\<close> logs that it is listening and enters the loop; it
  behaves on every sequence of events as it does when \<open>uv_listen\<close> returns 0, and when
  the loop has nothing to deliver it returns 0.
\<close>

theorem listen_failure_not_checked:
  "status (main_startup server 0 0 0 (- 98)) = Running
   \<and> main L eof server 0 0 0 (- 98) evs = main L eof server 0 0 0 0 evs
   \<and> Uv_run \<in> set (trace (main L eof server 0 0 0 (- 98) evs))
   \<and> status (main L eof server 0 0 0 (- 98) []) = Exited 0"
proof -
  have t: "\<exists>X. trace (uv_run L eof evs (emit Uv_run (main_startup server 0 0 0 (- 98)))) =
      trace (emit Uv_run (main_startup server 0 0 0 (- 98))) @ X"
    using uv_run_ops [OF server_inv_start, of L eof evs server "- 98" 0] by blast
  then have "Uv_run \<in> set (trace (uv_run L eof evs (emit Uv_run (main_startup server 0 0 0 (- 98)))))"
    by (auto simp add: emit_def)
  then have "Uv_run \<in> set (trace (main L eof server 0 0 0 (- 98) evs))"
    by (simp add: main_def main_startup_status Let_def exit_proc_def)
  moreover have "main L eof server 0 0 0 (- 98) evs = main L eof server 0 0 0 0 evs"
    by (simp add: main_def main_startup_listen_ignored [of server "- 98"])
  moreover have "status (main L eof server 0 0 0 (- 98) []) = Exited 0"
    by (simp add: main_def main_startup_status Let_def exit_proc_def emit_def)
  ultimately show ?thesis by (simp add: main_startup_status)
qed

subsection \<open>C8: request ids\<close>

text \<open>
  C8 (as stated): of two accepted connections the later one has the greater id. The id is
  a C \<open>int\<close>, here 32 bits with the increment in two's complement (ISO C leaves the
  overflow undefined). After 2147483647 accepted connections the next
  connection gets the id 2147483647 and the one after it the id -2147483648.
\<close>

theorem request_id_wraps_around:
  "read_request_id overflow_first (nth_client 2147483647) = Some 2147483647
   \<and> read_request_id overflow_second (nth_client 2147483648) = Some 2147483648
   \<and> sint (2147483647 :: 32 word) = 2147483647
   \<and> sint (2147483648 :: 32 word) = - 2147483648
   \<and> \<not> sint (2147483647 :: 32 word) < sint (2147483648 :: 32 word)"
proof -
  have c: "request_id_counter (serving example_layout (- 4095) 500 0 many_accepts) = 2147483647"
    using counter_serving [OF many_accepts_running] by (simp add: many_accepts_allocate)
  have 1: "read_request_id overflow_first (nth_client 2147483647) = Some 2147483647"
    unfolding overflow_first_def by (simp only: read_request_id_on_connect c)
  have "request_id_counter overflow_first = 2147483648"
    unfolding overflow_first_def by (simp add: on_connect_ok c)
  then have 2: "read_request_id overflow_second (nth_client 2147483648) = Some 2147483648"
    unfolding overflow_second_def by (simp only: read_request_id_on_connect)
  show ?thesis using 1 2 by simp
qed

text \<open>
  C8 (amended): after a successful startup, let a connection be allocated after the events
  \<open>pre\<close> and another one after the further events \<open>mid\<close>, whichever callbacks of
  whichever connections these events are. If fewer than 2147483647 allocations precede the
  second one, so that no increment of the counter has gone beyond the largest \<open>int\<close>,
  each of the two has an id and the id of the second, read as a signed number, is strictly
  greater than the id of the first.
\<close>

theorem request_ids_increase:
  assumes "s1 = on_connect L server1 0 c1 r1 (serving L eof server r_listen pre)"
    and "status (serving L eof server r_listen pre) = Running"
    and "s2 = on_connect L server2 0 c2 r2 (uv_run L eof mid s1)"
    and "status (uv_run L eof mid s1) = Running"
    and "length (filter allocates (pre @ mid)) + 2 < 2147483648"
  shows "\<exists>i1 i2. read_request_id s1 c1 = Some i1 \<and> read_request_id s2 c2 = Some i2
           \<and> sint i1 < sint i2"
proof -
  let ?p = "length (filter allocates pre)" and ?m = "length (filter allocates mid)"
  have i1: "read_request_id s1 c1 = Some (of_nat ?p)"
    using assms(1) counter_serving [OF assms(2)] by (simp add: read_request_id_on_connect)
  have inv1: "server_inv s1"
    using assms(1) by (simp add: server_inv_on_connect_ok server_inv_serving)
  have c1: "request_id_counter s1 = of_nat ?p + 1"
    using assms(1) counter_serving [OF assms(2)] by (simp add: on_connect_ok)
  have "request_id_counter (uv_run L eof mid s1) = of_nat (?p + 1 + ?m)"
    using counter_uv_run [OF inv1 assms(4)] c1 by simp
  then have i2: "read_request_id s2 c2 = Some (of_nat (?p + 1 + ?m))"
    using assms(3) by (simp only: read_request_id_on_connect)
  have "sint (of_nat ?p :: 32 word) = int ?p"
    using assms(5) by (intro sint_of_nat_32) simp
  moreover have "sint (of_nat (?p + 1 + ?m) :: 32 word) = int (?p + 1 + ?m)"
    using assms(5) by (intro sint_of_nat_32) simp
  ultimately have "sint (of_nat ?p :: 32 word) < sint (of_nat (?p + 1 + ?m) :: 32 word)"
    by simp
  then show ?thesis using i1 i2 by blast
qed

text \<open>The first two connections of a run get the ids 0 and 1.\<close>

theorem request_ids_increase_witness:
  "status (serving example_layout (- 4095) 500 0 []) = Running
   \<and> status (uv_run example_layout (- 4095) []
         (on_connect example_layout 500 0 1000 0 (serving example_layout (- 4095) 500 0 [])))
       = Running
   \<and> length (filter allocates ([] @ [])) + 2 < 2147483648
   \<and> (\<exists>i1 i2.
         read_request_id
           (on_connect example_layout 500 0 1000 0 (serving example_layout (- 4095) 500 0 []))
           1000 = Some i1
         \<and> read_request_id
             (on_connect example_layout 500 0 2000 0
               (uv_run example_layout (- 4095) []
                 (on_connect example_layout 500 0 1000 0
                   (serving example_layout (- 4095) 500 0 []))))
             2000 = Some i2
         \<and> sint i1 < sint i2)"
  using request_ids_increase
    [of "on_connect example_layout 500 0 1000 0 (serving example_layout (- 4095) 500 0 [])"
        example_layout 500 1000 0 "- 4095" 500 0 "[]"
        "on_connect example_layout 500 0 2000 0
               (uv_run example_layout (- 4095) []
                 (on_connect example_layout 500 0 1000 0
                   (serving example_layout (- 4095) 500 0 [])))"
        500 2000 0 "[]"]
  by (simp add: serving_def main_startup_status emit_def on_connect_ok)

subsection \<open>C9: headers-complete answers 1\<close>

text \<open>
  C9. For every connection the accept callback allocated, in every state the server
  reaches, the headers-complete callback returns 1; so a parser that invokes it goes on
  as it does for the answer 1, whatever it would do for another answer, with no state
  changed but the trace.
\<close>

theorem headers_complete_returns_1:
  assumes "s = serving L eof server r_listen evs"
    and "status s = Running"
    and "heap s c \<noteq> None"
  shows "fst (on_headers_complete L (parser_addr L c) s) = 1
       \<and> http_parser_execute L (parser_addr L c) (Invoke Headers_complete k) s =
           http_parser_execute L (parser_addr L c) (k 1)
             (snd (on_headers_complete L (parser_addr L c) s))"
proof -
  have "wf_heap s" using assms(1) server_inv_serving [of L eof server r_listen evs]
    by (simp add: server_inv_def)
  moreover obtain cl where "heap s c = Some cl" using assms(3) by blast
  ultimately have "parser_client L s (parser_addr L c) = Some (c, request_id cl)"
    by (rule parser_client_wf)
  then show ?thesis using assms(2)
    by (simp add: on_headers_complete_def parser_settings_def emit_def)
qed

text \<open>The one connection of the example.\<close>

theorem headers_complete_returns_1_witness:
  "status one_client = Running \<and> heap one_client 1000 \<noteq> None
   \<and> fst (on_headers_complete example_layout (parser_addr example_layout 1000) one_client) = 1"
  using headers_complete_returns_1
    [of one_client example_layout "- 4095" 500 0 "[Connection 500 0 1000 0]" 1000 "\<lambda>r. Return 0"]
  by (simp add: one_client_def [symmetric] one_client_facts)

subsection \<open>C10: the client pointer is the handle pointer\<close>

text \<open>
  C10. Whatever the sizes and alignments of the three library types, the member
  \<open>handle\<close> of \<open>client_t\<close> is at offset 0, so \<open>&client->handle\<close> is \<open>client\<close>;
  the assertion of \<open>on_connect\<close> never fails, and reading \<open>data\<close> through the client
  pointer taken as a handle pointer yields the client that \<open>on_connect\<close> stored.
\<close>

theorem client_pointer_is_handle_pointer:
  assumes "status s = Running"
  shows "offsetof_handle L = 0
       \<and> handle_addr L client = client
       \<and> status (on_connect L server st client r s) \<noteq> Assert_failed
       \<and> read_handle_data L (on_connect L server 0 client r s) client = Some client"
proof -
  have "status (on_connect L server st client r s) \<noteq> Assert_failed"
    using assms by (cases "st = 0") (simp_all add: on_connect_ok on_connect_fail)
  moreover have "read_handle_data L (on_connect L server 0 client r s) client = Some client"
    by (simp add: on_connect_ok read_handle_data_def)
  ultimately show ?thesis by simp
qed

text \<open>A second connection, allocated at address 2000.\<close>

theorem client_pointer_is_handle_pointer_witness:
  "status one_client = Running
   \<and> handle_addr example_layout 2000 = 2000
   \<and> status (on_connect example_layout 500 0 2000 0 one_client) \<noteq> Assert_failed
   \<and> read_handle_data example_layout (on_connect example_layout 500 0 2000 0 one_client) 2000
       = Some 2000"
  using client_pointer_is_handle_pointer [of one_client example_layout 2000 500 0 0]
  by (simp add: one_client_facts)

end
